theory Spec2Isabelle
  imports Main "HOL-Library.Log_Nat" "HOL-Library.Multiset"
begin

section \<open>Python values and string helpers\<close>

text \<open>
  A character is a code point below 256. The helpers below follow the Python string
  methods the sources call: \<open>str.isspace\<close> holds below 256 for the code points
  9-13, 28-32, 133 and 160, and \<open>str.strip()\<close> removes such characters from both ends.
\<close>

definition py_isspace :: "char \<Rightarrow> bool" where
  "py_isspace c =
     (let n = (of_char c :: nat)
      in (9 \<le> n \<and> n \<le> 13) \<or> (28 \<le> n \<and> n \<le> 32) \<or> n = 133 \<or> n = 160)"

definition strip_chars :: "(char \<Rightarrow> bool) \<Rightarrow> string \<Rightarrow> string" where
  "strip_chars p s = rev (dropWhile p (rev (dropWhile p s)))"

definition strip :: "string \<Rightarrow> string" where
  "strip s = strip_chars py_isspace s"

text \<open>JSON-like Python values; a dict is an association list read with \<open>map_of\<close>.\<close>

datatype pyval =
    PNone
  | PBool bool
  | PInt int
  | PFloat rat
  | PStr string
  | PList "pyval list"
  | PDict "(string \<times> pyval) list"

section \<open>The MCP helper \<open>_run_roam\<close> (mcp_server.py)\<close>

text \<open>
  What \<open>subprocess.run(cmd, capture_output=True, text=True, cwd=root, timeout=60)\<close> can do:
  complete with a return code and the two captured streams, raise \<open>TimeoutExpired\<close>, or
  raise another exception (carried as its \<open>str(exc)\<close>).
\<close>

datatype proc_outcome =
    Completed int string string
  | TimeoutExpired
  | RunRaised string

text \<open>
  What \<open>json.loads\<close> can do on a text: return the parsed value, raise
  \<open>JSONDecodeError\<close> or raise another exception (both carried as \<open>str(exc)\<close>).
  The parser itself is a parameter of the model.
\<close>

datatype loads_outcome =
    Loaded pyval
  | JSONDecodeError string
  | LoadsRaised string

definition run_roam :: "(string \<Rightarrow> loads_outcome) \<Rightarrow> proc_outcome \<Rightarrow> pyval" where
  "run_roam json_loads res =
     (case res of
        Completed returncode out err \<Rightarrow>
          if returncode = 0 \<and> strip out \<noteq> [] then
            (case json_loads out of
               Loaded v \<Rightarrow> v
             | JSONDecodeError m \<Rightarrow>
                 PDict [(''error'', PStr (''Failed to parse JSON output: '' @ m))]
             | LoadsRaised m \<Rightarrow> PDict [(''error'', PStr m)])
          else
            PDict [(''error'', PStr (if strip err \<noteq> [] then strip err else ''Command failed'')),
                   (''exit_code'', PInt returncode)]
      | TimeoutExpired \<Rightarrow> PDict [(''error'', PStr ''Command timed out after 60s'')]
      | RunRaised m \<Rightarrow> PDict [(''error'', PStr m)])"

text \<open>
  A failing invocation: a non-zero exit code, a blank standard output, a timeout, another
  exception of the subprocess call, or a standard output that \<open>json.loads\<close> rejects.
\<close>

definition failing_invocation :: "(string \<Rightarrow> loads_outcome) \<Rightarrow> proc_outcome \<Rightarrow> bool" where
  "failing_invocation json_loads res =
     (case res of
        Completed returncode out err \<Rightarrow>
          returncode \<noteq> 0 \<or> strip out = [] \<or>
          (case json_loads out of Loaded v \<Rightarrow> False | _ \<Rightarrow> True)
      | _ \<Rightarrow> True)"

definition dict_get :: "pyval \<Rightarrow> string \<Rightarrow> pyval option" where
  "dict_get v k = (case v of PDict d \<Rightarrow> map_of d k | _ \<Rightarrow> None)"

definition is_str :: "pyval option \<Rightarrow> bool" where
  "is_str v = (case v of Some (PStr s) \<Rightarrow> True | _ \<Rightarrow> False)"

definition rejects_all :: "string \<Rightarrow> loads_outcome" where
  "rejects_all s = JSONDecodeError ''Expecting value''"

section \<open>Envelope validation (output/schema_registry.py)\<close>

datatype py_exn =
    KeyError string
  | AttributeError
  | RegexError
  | StorageError
  | OverflowError

text \<open>\<open>s.split(c)\<close> for a one-character separator: never empty, one more part than separators.\<close>

fun split_on :: "char \<Rightarrow> string \<Rightarrow> string list" where
  "split_on c [] = [[]]"
| "split_on c (x # xs) =
     (if x = c then [] # split_on c xs
      else (case split_on c xs of
              w # ws \<Rightarrow> (x # w) # ws
            | [] \<Rightarrow> [[x]]))"

text \<open>
  \<open>str.isdigit()\<close>: a non-empty string of digit characters. Below code point 256 the digit
  characters are 0-9 and the superscripts 178, 179 and 185.
\<close>

definition py_isdigit_char :: "char \<Rightarrow> bool" where
  "py_isdigit_char c =
     (let n = (of_char c :: nat) in (48 \<le> n \<and> n \<le> 57) \<or> n = 178 \<or> n = 179 \<or> n = 185)"

definition isdigit :: "string \<Rightarrow> bool" where
  "isdigit s = (s \<noteq> [] \<and> list_all py_isdigit_char s)"

text \<open>A text between two apostrophes (code point 39), as the messages quote field names.\<close>

definition quoted :: "string \<Rightarrow> string" where
  "quoted s = [CHR 0x27] @ s @ [CHR 0x27]"

text \<open>The keys of \<open>ENVELOPE_SCHEMA["required_fields"]\<close>, in their order.\<close>

definition required_fields :: "string list" where
  "required_fields =
     [''schema'', ''schema_version'', ''command'', ''version'', ''timestamp'', ''summary'']"

definition is_dict :: "pyval \<Rightarrow> bool" where
  "is_dict v = (case v of PDict d \<Rightarrow> True | _ \<Rightarrow> False)"

text \<open>
  \<open>validate_envelope(data)\<close>. The three checks run in the source's order and collect
  their messages; \<open>data["schema_version"].split(".")\<close> on a value that is not a string has
  no \<open>split\<close> and raises \<open>AttributeError\<close>.
\<close>

definition validate_envelope :: "(string \<times> pyval) list \<Rightarrow> py_exn + (bool \<times> string list)" where
  "validate_envelope data =
     (let errors1 = map (\<lambda>field. ''Missing required field: '' @ field)
                        (filter (\<lambda>field. map_of data field = None) required_fields);
          errors2 = (case map_of data ''summary'' of
                       Some v \<Rightarrow> if \<not> is_dict v then [quoted ''summary'' @ '' must be a dict''] else []
                     | None \<Rightarrow> [])
      in case map_of data ''schema_version'' of
           None \<Rightarrow> Inr (errors1 @ errors2 = [], errors1 @ errors2)
         | Some (PStr v) \<Rightarrow>
             (let parts = split_on CHR ''.'' v;
                  errors3 = (if length parts \<noteq> 3 \<or> \<not> list_all isdigit parts
                             then [quoted ''schema_version'' @ '' must be semantic version (X.Y.Z)'']
                             else [])
              in Inr (errors1 @ errors2 @ errors3 = [], errors1 @ errors2 @ errors3))
         | Some _ \<Rightarrow> Inl AttributeError)"

text \<open>The fitness command's envelope fields around a summary without a verdict.\<close>

definition envelope_without_verdict :: "(string \<times> pyval) list" where
  "envelope_without_verdict =
     [(''schema'', PStr ''roam-envelope-v1''),
      (''schema_version'', PStr ''1.0.0''),
      (''command'', PStr ''fitness''),
      (''version'', PStr ''1.0.0''),
      (''timestamp'', PStr ''2026-02-20T00:00:00Z''),
      (''summary'', PDict [(''rules_checked'', PInt 0)])]"

section \<open>The index read by the commands\<close>

text \<open>
  The tables of the index, with the columns the queries of the sources read. A connection
  holds each table, or \<open>None\<close> for a table that cannot be read: a query over such a table
  raises a storage error.
\<close>

record file_row =
  f_id :: nat
  f_path :: string

record symbol_row =
  s_id :: nat
  s_file_id :: nat
  s_name :: string
  s_kind :: string
  s_line_start :: "int option"
  s_is_exported :: int

record edge_row =
  e_source_id :: nat
  e_target_id :: nat
  e_kind :: string
  e_line :: "int option"

record symbol_metric_row =
  sm_symbol_id :: nat
  sm_cognitive_complexity :: rat

record graph_metric_row =
  gm_symbol_id :: nat
  gm_in_degree :: "int option"
  gm_out_degree :: "int option"
  gm_betweenness :: "rat option"

record conn =
  t_files :: "file_row list option"
  t_symbols :: "symbol_row list option"
  t_edges :: "edge_row list option"
  t_symbol_metrics :: "symbol_metric_row list option"
  t_graph_metrics :: "graph_metric_row list option"

section \<open>Double-precision arithmetic of the health score\<close>

text \<open>
  Python floats are IEEE-754 doubles. A finite double is a rational number, and each
  operation returns the exact result rounded to 53 significant bits, ties to even. The model
  covers magnitudes inside the normal range of doubles, where no overflow or underflow occurs.
\<close>

definition pow2 :: "int \<Rightarrow> rat" where
  "pow2 e = (if 0 \<le> e then 2 ^ nat e else 1 / 2 ^ nat (- e))"

definition round_half_even :: "rat \<Rightarrow> int" where
  "round_half_even q =
     (let f = \<lfloor>q\<rfloor>; d = q - of_int f
      in if d < 1 / 2 then f
         else if 1 / 2 < d then f + 1
         else if even f then f else f + 1)"

text \<open>The binary exponent \<open>e\<close> of a positive rational: \<open>2^e \<le> a < 2^(e+1)\<close>.\<close>

definition binary_exponent :: "rat \<Rightarrow> int" where
  "binary_exponent a =
     (let (n, d) = quotient_of a; e0 = bitlen n - bitlen d
      in if pow2 e0 \<le> a then e0 else e0 - 1)"

definition float_round :: "rat \<Rightarrow> rat" where
  "float_round q =
     (if q = 0 then 0
      else let a = \<bar>q\<bar>; e = binary_exponent a
           in sgn q * of_int (round_half_even (a / pow2 (e - 52))) * pow2 (e - 52))"

text \<open>\<open>a / b\<close> on two ints (true division, correctly rounded) and \<open>x * y\<close> on floats.\<close>

definition truediv :: "nat \<Rightarrow> nat \<Rightarrow> rat" where
  "truediv a b = float_round (of_nat a / of_nat b)"

definition fmul :: "rat \<Rightarrow> rat \<Rightarrow> rat" where
  "fmul x y = float_round (x * y)"

text \<open>\<open>int(x)\<close> on a float truncates towards zero.\<close>

definition int_of_float :: "rat \<Rightarrow> int" where
  "int_of_float x = (if 0 \<le> x then \<lfloor>x\<rfloor> else \<lceil>x\<rceil>)"

section \<open>Fitness rules and their checkers (commands/cmd_fitness.py)\<close>

text \<open>
  A number of a rule is a Python int or a finite float (a double, which is a rational).
  Python compares the two kinds by their values. As the parameter of a query an int must fit
  the signed 64-bit integers of the database, or binding it raises \<open>OverflowError\<close>; a
  float is always bound.
\<close>

datatype number = IntNum int | FloatNum rat

definition num_value :: "number \<Rightarrow> rat" where
  "num_value x = (case x of IntNum i \<Rightarrow> of_int i | FloatNum q \<Rightarrow> q)"

definition sqlite_bindable :: "number \<Rightarrow> bool" where
  "sqlite_bindable x =
     (case x of IntNum i \<Rightarrow> - (2 ^ 63) \<le> i \<and> i < 2 ^ 63 | FloatNum q \<Rightarrow> True)"

text \<open>
  A rule is a dict read from the configuration; a field is \<open>None\<close> when the key is absent.
  The values have the types the rule format documents: texts, a boolean \<open>allow\<close>, and
  numbers for \<open>max\<close> and \<open>min\<close>.
\<close>

record rule =
  r_name :: "string option"
  r_type :: "string option"
  r_from :: "string option"
  r_to :: "string option"
  r_allow :: "bool option"
  r_metric :: "string option"
  r_max :: "number option"
  r_min :: "number option"
  r_kind :: "string option"
  r_pattern :: "string option"
  r_exclude :: "string option"
  r_reason :: "string option"
  r_link :: "string option"

definition empty_rule :: rule where
  "empty_rule =
     \<lparr>r_name = None, r_type = None, r_from = None, r_to = None, r_allow = None,
      r_metric = None, r_max = None, r_min = None, r_kind = None, r_pattern = None,
      r_exclude = None, r_reason = None, r_link = None\<rparr>"

text \<open>\<open>rule.get(key, default)\<close>.\<close>

definition get_or :: "'a option \<Rightarrow> 'a \<Rightarrow> 'a" where
  "get_or v d = (case v of Some x \<Rightarrow> x | None \<Rightarrow> d)"

text \<open>
  The functions the checkers call that are not among the sources are parameters of the
  model: \<open>fnmatch.fnmatch\<close>, \<open>re.compile\<close> (an error, or the pattern's \<open>match\<close> as a
  test on names), \<open>build_symbol_graph\<close> and \<open>find_cycles\<close>. A graph is its node list and
  its edge list; \<open>len(G)\<close> is the number of nodes.
\<close>

type_synonym graph = "nat list \<times> (nat \<times> nat) list"

record pylib =
  fnmatch :: "string \<Rightarrow> string \<Rightarrow> bool"
  re_compile :: "string \<Rightarrow> py_exn + (string \<Rightarrow> bool)"
  build_symbol_graph :: "conn \<Rightarrow> py_exn + graph"
  find_cycles :: "graph \<Rightarrow> py_exn + nat list list"

text \<open>
  The violation dicts, by the values their entries and their message are built from.
  \<^item> \<open>DependencyViolation\<close>: rule name, source name, target name, source path, line of
    the edge (\<open>None\<close> where the source writes \<open>?\<close>), target path, edge kind.
  \<^item> \<open>MetricViolation\<close>: rule name, metric, the bound that is broken, value, threshold.
  \<^item> \<open>ComplexityViolation\<close>: rule name, symbol name, value, threshold, and the path and
    first line given to \<open>loc\<close>.
  \<^item> \<open>NamingViolation\<close>: rule name, symbol name, pattern, and the path and first line
    given to \<open>loc\<close>.
  The formatter \<open>loc\<close> is not among the sources; its two arguments are kept.
\<close>

datatype bound = MaxBound | MinBound

datatype violation =
    DependencyViolation string string string string "int option" string string
  | MetricViolation string string bound int number
  | ComplexityViolation string string rat number string "int option"
  | NamingViolation string string string string "int option"

text \<open>\<open>violations.append({"rule": rule["name"], ...})\<close>: a rule without a name raises.\<close>

definition append_violation ::
  "rule \<Rightarrow> (string \<Rightarrow> violation) \<Rightarrow> violation list \<Rightarrow> py_exn + violation list" where
  "append_violation rule mk violations =
     (case r_name rule of
        None \<Rightarrow> Inl (KeyError ''name'')
      | Some n \<Rightarrow> Inr (violations @ [mk n]))"

subsection \<open>Dependency rules\<close>

record dep_row =
  d_kind :: string
  d_line :: "int option"
  d_source_path :: string
  d_target_path :: string
  d_source_name :: string
  d_target_name :: string

text \<open>The join of edges with the symbols and files of both ends.\<close>

definition dependency_rows :: "conn \<Rightarrow> py_exn + dep_row list" where
  "dependency_rows conn =
     (case (t_edges conn, t_symbols conn, t_files conn) of
        (Some es, Some ss, Some fs) \<Rightarrow>
          Inr [\<lparr>d_kind = e_kind e, d_line = e_line e,
                d_source_path = f_path sf, d_target_path = f_path tf,
                d_source_name = s_name ssym, d_target_name = s_name tsym\<rparr>.
               e \<leftarrow> es,
               ssym \<leftarrow> ss, e_source_id e = s_id ssym,
               tsym \<leftarrow> ss, e_target_id e = s_id tsym,
               sf \<leftarrow> fs, s_file_id ssym = f_id sf,
               tf \<leftarrow> fs, s_file_id tsym = f_id tf]
      | _ \<Rightarrow> Inl StorageError)"

text \<open>\<open>r['line'] or '?'\<close>: a missing line and line 0 both give the question mark.\<close>

definition line_or_unknown :: "int option \<Rightarrow> int option" where
  "line_or_unknown l = (case l of Some n \<Rightarrow> if n = 0 then None else Some n | None \<Rightarrow> None)"

fun dependency_loop ::
  "pylib \<Rightarrow> rule \<Rightarrow> dep_row list \<Rightarrow> violation list \<Rightarrow> py_exn + violation list" where
  "dependency_loop lib rule [] violations = Inr violations"
| "dependency_loop lib rule (r # rows) violations =
     (let src_match = fnmatch lib (d_source_path r) (get_or (r_from rule) ''**'');
          tgt_match = fnmatch lib (d_target_path r) (get_or (r_to rule) ''**'')
      in if src_match \<and> tgt_match \<and> \<not> get_or (r_allow rule) False then
           (case append_violation rule
                   (\<lambda>n. DependencyViolation n (d_source_name r) (d_target_name r)
                          (d_source_path r) (line_or_unknown (d_line r))
                          (d_target_path r) (d_kind r))
                   violations of
              Inl e \<Rightarrow> Inl e
            | Inr violations' \<Rightarrow> dependency_loop lib rule rows violations')
         else dependency_loop lib rule rows violations)"

definition check_dependency_rule :: "pylib \<Rightarrow> rule \<Rightarrow> conn \<Rightarrow> py_exn + violation list" where
  "check_dependency_rule lib rule conn =
     (case dependency_rows conn of
        Inl e \<Rightarrow> Inl e
      | Inr rows \<Rightarrow> dependency_loop lib rule rows [])"

subsection \<open>Metric rules\<close>

text \<open>
  The two threshold tests that follow the computation of a global metric:
  \<open>if max_val is not None and count > max_val: violations.append(...)\<close> and the same for
  \<open>min_val\<close>, with \<open>cnt\<close> for the source's \<open>count\<close>. The result is the exception raised,
  if any, and the list as it then stands.
\<close>

definition check_bounds ::
  "rule \<Rightarrow> string \<Rightarrow> int \<Rightarrow> violation list \<Rightarrow> py_exn option \<times> violation list" where
  "check_bounds rule metric cnt violations =
     (case (case r_max rule of
              Some max_val \<Rightarrow>
                if num_value max_val < of_int cnt
                then append_violation rule (\<lambda>n. MetricViolation n metric MaxBound cnt max_val) violations
                else Inr violations
            | None \<Rightarrow> Inr violations) of
        Inl e \<Rightarrow> (Some e, violations)
      | Inr violations1 \<Rightarrow>
          (case (case r_min rule of
                   Some min_val \<Rightarrow>
                     if of_int cnt < num_value min_val
                     then append_violation rule (\<lambda>n. MetricViolation n metric MinBound cnt min_val) violations1
                     else Inr violations1
                 | None \<Rightarrow> Inr violations1) of
             Inl e \<Rightarrow> (Some e, violations1)
           | Inr violations2 \<Rightarrow> (None, violations2)))"

text \<open>
  The score of the \<open>health_score\<close> branch, from \<open>cycle_syms\<close> and \<open>total_syms\<close>:
  \<open>cycle_pct = (cycle_syms / total_syms * 100) if total_syms else 0\<close> and
  \<open>score = max(0, 100 - int(cycle_pct * 2))\<close>.
\<close>

definition health_score :: "nat \<Rightarrow> nat \<Rightarrow> int" where
  "health_score cycle_syms total_syms =
     (let cycle_pct = (if total_syms \<noteq> 0 then fmul (truediv cycle_syms total_syms) 100 else 0)
      in max 0 (100 - int_of_float (fmul cycle_pct 2)))"

record complexity_row =
  c_cognitive_complexity :: rat
  c_name :: string
  c_kind :: string
  c_line_start :: "int option"
  c_path :: string

text \<open>
  The query of the \<open>cognitive_complexity\<close> branch: the metric rows joined with their symbol
  and file, those above the threshold, by descending complexity, the first 50. SQL leaves
  the order among equal complexities open; the model keeps them in join order. The statement
  is prepared before the threshold is bound: a table that cannot be read raises first, then
  a threshold that cannot be bound.
\<close>

definition complexity_join ::
  "symbol_metric_row list \<Rightarrow> symbol_row list \<Rightarrow> file_row list \<Rightarrow> complexity_row list" where
  "complexity_join sms ss fs =
     [\<lparr>c_cognitive_complexity = sm_cognitive_complexity sm, c_name = s_name smb,
        c_kind = s_kind smb, c_line_start = s_line_start smb, c_path = f_path f\<rparr>.
      sm \<leftarrow> sms,
      smb \<leftarrow> ss, sm_symbol_id sm = s_id smb,
      f \<leftarrow> fs, s_file_id smb = f_id f]"

definition complexity_rows :: "conn \<Rightarrow> number \<Rightarrow> py_exn + complexity_row list" where
  "complexity_rows conn threshold =
     (case (t_symbol_metrics conn, t_symbols conn, t_files conn) of
        (Some sms, Some ss, Some fs) \<Rightarrow>
          if sqlite_bindable threshold then
            Inr (take 50 (sort_key (\<lambda>r. - c_cognitive_complexity r)
                   (filter (\<lambda>r. num_value threshold < c_cognitive_complexity r)
                      (complexity_join sms ss fs))))
          else Inl OverflowError
      | _ \<Rightarrow> Inl StorageError)"

fun complexity_loop ::
  "rule \<Rightarrow> number \<Rightarrow> complexity_row list \<Rightarrow> violation list \<Rightarrow>
   py_exn option \<times> violation list" where
  "complexity_loop rule threshold [] violations = (None, violations)"
| "complexity_loop rule threshold (r # rows) violations =
     (case append_violation rule
             (\<lambda>n. ComplexityViolation n (c_name r) (c_cognitive_complexity r) threshold
                    (c_path r) (c_line_start r))
             violations of
        Inl e \<Rightarrow> (Some e, violations)
      | Inr violations' \<Rightarrow> complexity_loop rule threshold rows violations')"

text \<open>
  The rows of \<open>symbols s LEFT JOIN graph_metrics gm ON s.id = gm.symbol_id\<close>: a symbol
  without a metrics row appears once, with no metrics.
\<close>

definition left_join_graph_metrics ::
  "symbol_row list \<Rightarrow> graph_metric_row list \<Rightarrow> (symbol_row \<times> graph_metric_row option) list" where
  "left_join_graph_metrics ss gms =
     concat (map (\<lambda>smb. case filter (\<lambda>gm. s_id smb = gm_symbol_id gm) gms of
                           [] \<Rightarrow> [(smb, None)]
                         | ms \<Rightarrow> map (\<lambda>gm. (smb, Some gm)) ms) ss)"

definition count_dead_exports :: "conn \<Rightarrow> py_exn + int" where
  "count_dead_exports conn =
     (case (t_symbols conn, t_graph_metrics conn) of
        (Some ss, Some gms) \<Rightarrow>
          Inr (int (length (filter
                 (\<lambda>(smb, gm). s_is_exported smb = 1 \<and>
                    (case gm of
                       None \<Rightarrow> True
                     | Some g \<Rightarrow> gm_in_degree g = None \<or> gm_in_degree g = Some 0))
                 (left_join_graph_metrics ss gms))))
      | _ \<Rightarrow> Inl StorageError)"

definition count_god_components :: "conn \<Rightarrow> py_exn + int" where
  "count_god_components conn =
     (case t_graph_metrics conn of
        Some gms \<Rightarrow>
          Inr (int (length (filter
                 (\<lambda>g. case (gm_in_degree g, gm_out_degree g) of
                         (Some i, Some out) \<Rightarrow> 20 < i + out
                       | _ \<Rightarrow> False) gms)))
      | None \<Rightarrow> Inl StorageError)"

text \<open>The literal \<open>0.1\<close> of the query is the double nearest to one tenth.\<close>

definition count_bottlenecks :: "conn \<Rightarrow> py_exn + int" where
  "count_bottlenecks conn =
     (case t_graph_metrics conn of
        Some gms \<Rightarrow>
          Inr (int (length (filter
                 (\<lambda>g. case gm_betweenness g of
                         Some b \<Rightarrow> float_round (1 / 10) < b
                       | None \<Rightarrow> False) gms)))
      | None \<Rightarrow> Inl StorageError)"

text \<open>
  \<open>_check_count_metric(metric, rule, conn, violations)\<close> appends to the caller's list; no
  exception is caught here. Any other metric name returns at once.
\<close>

definition check_count_metric ::
  "string \<Rightarrow> rule \<Rightarrow> conn \<Rightarrow> violation list \<Rightarrow> py_exn + violation list" where
  "check_count_metric metric rule conn violations =
     (let counted =
            (if metric = ''dead_exports'' then Some (count_dead_exports conn)
             else if metric = ''god_components'' then Some (count_god_components conn)
             else if metric = ''bottlenecks'' then Some (count_bottlenecks conn)
             else None)
      in case counted of
           None \<Rightarrow> Inr violations
         | Some (Inl e) \<Rightarrow> Inl e
         | Some (Inr cnt) \<Rightarrow>
             (case check_bounds rule metric cnt violations of
                (Some e, vs) \<Rightarrow> Inl e
              | (None, vs) \<Rightarrow> Inr vs))"

text \<open>
  \<open>_check_metric_rule\<close>. In the branches \<open>cycles\<close>, \<open>health_score\<close> and
  \<open>cognitive_complexity\<close> the body is inside \<open>try: ... except Exception: pass\<close>: an
  exception ends the body and the violations appended so far are returned.
\<close>

definition check_metric_rule :: "pylib \<Rightarrow> rule \<Rightarrow> conn \<Rightarrow> py_exn + violation list" where
  "check_metric_rule lib rule conn =
     (let metric = get_or (r_metric rule) []
      in if metric = ''cycles'' then
           (case build_symbol_graph lib conn of
              Inl e \<Rightarrow> Inr []
            | Inr G \<Rightarrow>
                (case find_cycles lib G of
                   Inl e \<Rightarrow> Inr []
                 | Inr cycles \<Rightarrow>
                     Inr (snd (check_bounds rule ''cycles'' (int (length cycles)) []))))
         else if metric = ''health_score'' then
           (case build_symbol_graph lib conn of
              Inl e \<Rightarrow> Inr []
            | Inr G \<Rightarrow>
                if length (fst G) = 0 then Inr []
                else
                  (case find_cycles lib G of
                     Inl e \<Rightarrow> Inr []
                   | Inr cycles \<Rightarrow>
                       Inr (snd (check_bounds rule ''health_score''
                                   (health_score (sum_list (map length cycles)) (length (fst G)))
                                   []))))
         else if metric = ''cognitive_complexity'' then
           (let threshold = get_or (r_max rule) (IntNum 999)
            in case complexity_rows conn threshold of
                 Inl e \<Rightarrow> Inr []
               | Inr rows \<Rightarrow> Inr (snd (complexity_loop rule threshold rows [])))
         else if metric \<in> set [''god_components'', ''bottlenecks'', ''dead_exports'',
                                 ''layer_violations''] then
           check_count_metric metric rule conn []
         else Inr [])"

subsection \<open>Naming rules\<close>

record naming_row =
  n_name :: string
  n_kind :: string
  n_line_start :: "int option"
  n_path :: string

definition naming_rows :: "conn \<Rightarrow> string \<Rightarrow> py_exn + naming_row list" where
  "naming_rows conn kind =
     (case (t_symbols conn, t_files conn) of
        (Some ss, Some fs) \<Rightarrow>
          Inr [\<lparr>n_name = s_name smb, n_kind = s_kind smb,
                n_line_start = s_line_start smb, n_path = f_path f\<rparr>.
               smb \<leftarrow> ss,
               f \<leftarrow> fs, s_file_id smb = f_id f,
               s_kind smb = kind]
      | _ \<Rightarrow> Inl StorageError)"

fun naming_loop ::
  "rule \<Rightarrow> string \<Rightarrow> (string \<Rightarrow> bool) \<Rightarrow> (string \<Rightarrow> bool) option \<Rightarrow> naming_row list \<Rightarrow>
   violation list \<Rightarrow> py_exn + violation list" where
  "naming_loop rule pattern regex exclude_re [] violations = Inr violations"
| "naming_loop rule pattern regex exclude_re (r # rows) violations =
     (if (case exclude_re of Some ex \<Rightarrow> ex (n_name r) | None \<Rightarrow> False) then
        naming_loop rule pattern regex exclude_re rows violations
      else if \<not> regex (n_name r) then
        (case append_violation rule
                (\<lambda>n. NamingViolation n (n_name r) pattern (n_path r) (n_line_start r))
                violations of
           Inl e \<Rightarrow> Inl e
         | Inr violations' \<Rightarrow> naming_loop rule pattern regex exclude_re rows violations')
      else naming_loop rule pattern regex exclude_re rows violations)"

definition check_naming_rule :: "pylib \<Rightarrow> rule \<Rightarrow> conn \<Rightarrow> py_exn + violation list" where
  "check_naming_rule lib rule conn =
     (let kind = get_or (r_kind rule) ''function'';
          pattern = get_or (r_pattern rule) [];
          exclude = get_or (r_exclude rule) []
      in if pattern = [] then Inr []
         else
           (case re_compile lib pattern of
              Inl e \<Rightarrow> Inl e
            | Inr regex \<Rightarrow>
                (case (if exclude \<noteq> []
                       then (case re_compile lib exclude of
                               Inl e \<Rightarrow> Inl e
                             | Inr ex \<Rightarrow> Inr (Some ex))
                       else Inr None) of
                   Inl e \<Rightarrow> Inl e
                 | Inr exclude_re \<Rightarrow>
                     (case naming_rows conn kind of
                        Inl e \<Rightarrow> Inl e
                      | Inr rows \<Rightarrow> naming_loop rule pattern regex exclude_re rows []))))"

definition CHECKERS ::
  "string \<Rightarrow> (pylib \<Rightarrow> rule \<Rightarrow> conn \<Rightarrow> py_exn + violation list) option" where
  "CHECKERS rtype =
     (if rtype = ''dependency'' then Some check_dependency_rule
      else if rtype = ''metric'' then Some check_metric_rule
      else if rtype = ''naming'' then Some check_naming_rule
      else None)"

subsection \<open>The \<open>fitness\<close> command\<close>

text \<open>
  \<open>str.lower()\<close> below code point 256 moves A-Z and the capitals 192-222 (not 215) up by
  32; \<open>needle in text\<close> is the substring test.
\<close>

definition py_lower_char :: "char \<Rightarrow> char" where
  "py_lower_char c =
     (let n = (of_char c :: nat)
      in if (65 \<le> n \<and> n \<le> 90) \<or> (192 \<le> n \<and> n \<le> 222 \<and> n \<noteq> 215)
         then char_of (n + 32) else c)"

definition lower :: "string \<Rightarrow> string" where
  "lower s = map py_lower_char s"

fun contains :: "string \<Rightarrow> string \<Rightarrow> bool" where
  "contains [] needle = (needle = [])"
| "contains (c # cs) needle = (take (length needle) (c # cs) = needle \<or> contains cs needle)"

datatype status = PASS | FAIL

record rule_result =
  rr_name :: string
  rr_type :: string
  rr_status :: status
  rr_violations :: nat
  rr_reason :: "string option"
  rr_link :: "string option"

text \<open>The \<open>result_entry\<close> dict; \<open>reason\<close> and \<open>link\<close> are set only when not empty.\<close>

definition result_entry :: "rule \<Rightarrow> string \<Rightarrow> violation list \<Rightarrow> rule_result" where
  "result_entry rule rtype violations =
     (let reason = get_or (r_reason rule) []; link = get_or (r_link rule) []
      in \<lparr>rr_name = get_or (r_name rule) ''unnamed'',
          rr_type = rtype,
          rr_status = (if violations = [] then PASS else FAIL),
          rr_violations = length violations,
          rr_reason = (if reason \<noteq> [] then Some reason else None),
          rr_link = (if link \<noteq> [] then Some link else None)\<rparr>)"

text \<open>
  The loop over the rules: a rule whose type has no checker is skipped, a checker that
  raises ends the command with its exception.
\<close>

fun run_rules ::
  "pylib \<Rightarrow> conn \<Rightarrow> rule list \<Rightarrow> violation list \<Rightarrow> rule_result list \<Rightarrow>
   py_exn + (violation list \<times> rule_result list)" where
  "run_rules lib conn [] all_violations rule_results = Inr (all_violations, rule_results)"
| "run_rules lib conn (rule # rules) all_violations rule_results =
     (case CHECKERS (get_or (r_type rule) []) of
        None \<Rightarrow> run_rules lib conn rules all_violations rule_results
      | Some checker \<Rightarrow>
          (case checker lib rule conn of
             Inl e \<Rightarrow> Inl e
           | Inr violations \<Rightarrow>
               run_rules lib conn rules (all_violations @ violations)
                 (rule_results @ [result_entry rule (get_or (r_type rule) []) violations])))"

record summary =
  rules_checked :: nat
  passed :: nat
  failed :: nat
  total_violations :: nat

text \<open>
  What the command writes. \<open>JsonEnvelope\<close> holds the arguments \<open>summary\<close>, \<open>rules\<close> and
  \<open>violations\<close> of the call \<open>json_envelope("fitness", ...)\<close>; \<open>TextReport\<close> holds what the
  text lines are printed from: the rule results, the \<open>--explain\<close> flag, the violations
  shown, how many more there are when more than 30, and the two counts of the last line.
\<close>

datatype fitness_output =
    InitConfig
  | Message string
  | JsonEnvelope summary "rule_result list" "violation list"
  | TextReport "rule_result list" bool "violation list" "nat option" nat nat

record fitness_result =
  echoed :: fitness_output
  exit_code :: int

definition no_rules_message :: string where
  "no_rules_message =
     ''No fitness rules found. Create .roam/fitness.yaml or run:'' @ [CHR 0x0A] @
     ''  roam fitness --init''"

text \<open>
  \<open>if rule_filter: rules = [r for r in rules if rule_filter.lower() in
  r.get("name", "").lower()]\<close>; no filter and an empty one select every rule.
\<close>

definition selected_rules :: "string option \<Rightarrow> rule list \<Rightarrow> rule list" where
  "selected_rules rule_filter rules =
     (if get_or rule_filter [] \<noteq> []
      then filter (\<lambda>r. contains (lower (get_or (r_name r) [])) (lower (get_or rule_filter []))) rules
      else rules)"

text \<open>
  \<open>fitness(ctx, do_init, rule_filter, explain)\<close> from the loaded rules and the opened index.
  A \<open>return\<close> ends the command with exit code 0, \<open>raise SystemExit(1)\<close> with 1.
\<close>

definition fitness ::
  "pylib \<Rightarrow> bool \<Rightarrow> bool \<Rightarrow> string option \<Rightarrow> bool \<Rightarrow> rule list \<Rightarrow> conn \<Rightarrow>
   py_exn + fitness_result" where
  "fitness lib json_mode do_init rule_filter explain rules conn =
     (if do_init then Inr \<lparr>echoed = InitConfig, exit_code = 0\<rparr>
      else if rules = [] then Inr \<lparr>echoed = Message no_rules_message, exit_code = 0\<rparr>
      else if get_or rule_filter [] \<noteq> [] \<and> selected_rules rule_filter rules = [] then
        Inr \<lparr>echoed = Message (''No rules matching '' @ quoted (get_or rule_filter []) @ ''.''),
             exit_code = 0\<rparr>
      else
        (case run_rules lib conn (selected_rules rule_filter rules) [] [] of
           Inl e \<Rightarrow> Inl e
         | Inr (all_violations, rule_results) \<Rightarrow>
             (let n_passed = length (filter (\<lambda>r. rr_status r = PASS) rule_results);
                  n_failed = length (filter (\<lambda>r. rr_status r = FAIL) rule_results);
                  out = (if json_mode then
                           JsonEnvelope
                             \<lparr>rules_checked = length rule_results, passed = n_passed,
                              failed = n_failed,
                              total_violations = length all_violations\<rparr>
                             rule_results (take 100 all_violations)
                         else
                           TextReport rule_results explain (take 30 all_violations)
                             (if 30 < length all_violations
                              then Some (length all_violations - 30) else None)
                             n_passed n_failed)
              in Inr \<lparr>echoed = out, exit_code = (if 0 < n_failed then 1 else 0)\<rparr>)))"

text \<open>
  What a rule found, and whether its checker raised: the statements about the command are
  worded with these.
\<close>

definition rule_violations :: "pylib \<Rightarrow> conn \<Rightarrow> rule \<Rightarrow> violation list" where
  "rule_violations lib conn rule =
     (case CHECKERS (get_or (r_type rule) []) of
        None \<Rightarrow> []
      | Some checker \<Rightarrow> (case checker lib rule conn of Inl e \<Rightarrow> [] | Inr vs \<Rightarrow> vs))"

definition rule_raises :: "pylib \<Rightarrow> conn \<Rightarrow> rule \<Rightarrow> py_exn \<Rightarrow> bool" where
  "rule_raises lib conn rule e =
     (case CHECKERS (get_or (r_type rule) []) of
        None \<Rightarrow> False
      | Some checker \<Rightarrow> checker lib rule conn = Inl e)"

section \<open>The \<open>deps\<close> command (commands/cmd_deps.py)\<close>

text \<open>
  Modelled from the spec: the query \<open>FILE_BY_PATH\<close> of \<open>roam.db.queries\<close> is not among the
  sources. It is taken as the lookup of the file whose path is exactly the one given.
\<close>

definition file_by_path :: "conn \<Rightarrow> string \<Rightarrow> py_exn + file_row option" where
  "file_by_path conn path =
     (case t_files conn of
        None \<Rightarrow> Inl StorageError
      | Some fs \<Rightarrow> Inr (find (\<lambda>f. f_path f = path) fs))"

text \<open>
  SQL \<open>LIKE\<close>: \<open>%\<close> stands for any text, \<open>_\<close> for any one character, and the letters
  A-Z match in either case.
\<close>

definition ascii_lower :: "char \<Rightarrow> char" where
  "ascii_lower c =
     (let n = (of_char c :: nat) in if 65 \<le> n \<and> n \<le> 90 then char_of (n + 32) else c)"

fun like_match :: "string \<Rightarrow> string \<Rightarrow> bool" where
  "like_match [] [] = True"
| "like_match [] (c # cs) = False"
| "like_match (p # ps) [] = (p = CHR ''%'' \<and> like_match ps [])"
| "like_match (p # ps) (c # cs) =
     (if p = CHR ''%'' then like_match ps (c # cs) \<or> like_match (p # ps) cs
      else if p = CHR ''_'' then like_match ps cs
      else ascii_lower p = ascii_lower c \<and> like_match ps cs)"

text \<open>\<open>SELECT * FROM files WHERE path LIKE ? LIMIT 1\<close> with the argument \<open>f"%{path}"\<close>.\<close>

definition file_by_suffix :: "conn \<Rightarrow> string \<Rightarrow> py_exn + file_row option" where
  "file_by_suffix conn path =
     (case t_files conn of
        None \<Rightarrow> Inl StorageError
      | Some fs \<Rightarrow> Inr (find (\<lambda>f. like_match (CHR ''%'' # path) (f_path f)) fs))"

text \<open>
  The command on an index that exists, up to the point where the file is known: either it
  ends with \<open>raise SystemExit(1)\<close> after its message, or it goes on to list the imports of
  the file found (the queries of that listing are not among the sources).
\<close>

datatype deps_outcome =
    SystemExit string int
  | Listing file_row

text \<open>\<open>path.replace("\\", "/")\<close>; the backslash is code point 92.\<close>

definition normalise_path :: "string \<Rightarrow> string" where
  "normalise_path path0 = map (\<lambda>c. if c = CHR 0x5C then CHR ''/'' else c) path0"

definition deps :: "conn \<Rightarrow> string \<Rightarrow> py_exn + deps_outcome" where
  "deps conn path0 =
     (let path = normalise_path path0
      in case file_by_path conn path of
           Inl e \<Rightarrow> Inl e
         | Inr (Some frow) \<Rightarrow> Inr (Listing frow)
         | Inr None \<Rightarrow>
             (case file_by_suffix conn path of
                Inl e \<Rightarrow> Inl e
              | Inr (Some frow) \<Rightarrow> Inr (Listing frow)
              | Inr None \<Rightarrow> Inr (SystemExit (''File not found in index: '' @ path) 1)))"

section \<open>Library functions for the examples\<close>

text \<open>
  \<open>fnmatch.fnmatch(name, pat)\<close> on a POSIX system, for patterns without a bracket: \<open>*\<close>
  matches any text (a slash too), \<open>?\<close> any one character, any other character itself.
\<close>

fun glob_match :: "string \<Rightarrow> string \<Rightarrow> bool" where
  "glob_match [] [] = True"
| "glob_match [] (c # cs) = False"
| "glob_match (p # ps) [] = (p = CHR ''*'' \<and> glob_match ps [])"
| "glob_match (p # ps) (c # cs) =
     (if p = CHR ''*'' then glob_match ps (c # cs) \<or> glob_match (p # ps) cs
      else if p = CHR ''?'' then glob_match ps cs
      else p = c \<and> glob_match ps cs)"

text \<open>
  \<open>re.compile(p).match\<close> for a pattern of plain characters: the name starts with the
  pattern.
\<close>

definition literal_compile :: "string \<Rightarrow> py_exn + (string \<Rightarrow> bool)" where
  "literal_compile p = Inr (\<lambda>name. take (length p) name = p)"

text \<open>
  Modelled from the spec: \<open>build_symbol_graph\<close> of \<open>roam.graph.builder\<close> is not among the
  sources. The symbol graph has the symbols as nodes and the reference edges as edges.
\<close>

definition graph_of_index :: "conn \<Rightarrow> py_exn + graph" where
  "graph_of_index conn =
     (case (t_symbols conn, t_edges conn) of
        (Some ss, Some es) \<Rightarrow>
          Inr (remdups (map s_id ss), remdups (map (\<lambda>e. (e_source_id e, e_target_id e)) es))
      | _ \<Rightarrow> Inl StorageError)"

text \<open>
  Modelled from the spec: \<open>find_cycles\<close> of \<open>roam.graph.cycles\<close> is not among the sources.
  A cycle is a strongly connected component with at least two members or with a self-loop;
  the cycles come by size descending, then by their least member.
\<close>

definition successors :: "(nat \<times> nat) list \<Rightarrow> nat list \<Rightarrow> nat list" where
  "successors es us = remdups (map snd (filter (\<lambda>e. fst e \<in> set us) es))"

fun reach :: "nat \<Rightarrow> (nat \<times> nat) list \<Rightarrow> nat list \<Rightarrow> nat list" where
  "reach 0 es us = successors es us"
| "reach (Suc n) es us = remdups (successors es us @ reach n es (successors es us))"

definition component :: "graph \<Rightarrow> nat \<Rightarrow> nat list" where
  "component G u =
     filter (\<lambda>v. v = u \<or> (v \<in> set (reach (length (fst G)) (snd G) [u]) \<and>
                             u \<in> set (reach (length (fst G)) (snd G) [v]))) (fst G)"

definition cycles_of :: "graph \<Rightarrow> nat list list" where
  "cycles_of G =
     sort_key (\<lambda>c. - int (length c))
       (sort_key (\<lambda>c. fold min c (hd c))
          (filter (\<lambda>c. 2 \<le> length c \<or> (\<exists>u \<in> set c. (u, u) \<in> set (snd G)))
             (remdups (map (component G) (fst G)))))"

definition example_lib :: pylib where
  "example_lib =
     \<lparr>fnmatch = (\<lambda>name pat. glob_match pat name),
      re_compile = literal_compile,
      build_symbol_graph = graph_of_index,
      find_cycles = (\<lambda>G. Inr (cycles_of G))\<rparr>"

section \<open>Example indexes and rules\<close>

text \<open>A handler that calls into the database layer.\<close>

definition handlers_index :: conn where
  "handlers_index =
     \<lparr>t_files = Some [\<lparr>f_id = 1, f_path = ''handlers/h.x''\<rparr>, \<lparr>f_id = 2, f_path = ''db/d.x''\<rparr>],
      t_symbols = Some
        [\<lparr>s_id = 1, s_file_id = 1, s_name = ''serve'', s_kind = ''function'',
          s_line_start = Some 3, s_is_exported = 1\<rparr>,
         \<lparr>s_id = 2, s_file_id = 2, s_name = ''query'', s_kind = ''function'',
          s_line_start = Some 8, s_is_exported = 1\<rparr>],
      t_edges = Some
        [\<lparr>e_source_id = 1, e_target_id = 2, e_kind = ''call'', e_line = Some 5\<rparr>],
      t_symbol_metrics = Some
        [\<lparr>sm_symbol_id = 1, sm_cognitive_complexity = 30\<rparr>,
         \<lparr>sm_symbol_id = 2, sm_cognitive_complexity = 4\<rparr>],
      t_graph_metrics = Some
        [\<lparr>gm_symbol_id = 1, gm_in_degree = Some 0, gm_out_degree = Some 1,
          gm_betweenness = Some 0\<rparr>,
         \<lparr>gm_symbol_id = 2, gm_in_degree = Some 1, gm_out_degree = Some 0,
          gm_betweenness = Some 0\<rparr>]\<rparr>"

definition forbid_db_rule :: rule where
  "forbid_db_rule =
     empty_rule\<lparr>r_name := Some ''No direct DB access from handlers'',
                r_type := Some ''dependency'',
                r_from := Some ''handlers/**'', r_to := Some ''db/**'',
                r_allow := Some False\<rparr>"

definition only_api_rule :: rule where
  "only_api_rule =
     empty_rule\<lparr>r_name := Some ''Handlers may only call the API layer'',
                r_type := Some ''dependency'',
                r_from := Some ''handlers/**'', r_to := Some ''api/**'',
                r_allow := Some True\<rparr>"

text \<open>Two symbols joined by 21 calls: both have degree 21 and nothing is in a cycle.\<close>

definition god_index :: conn where
  "god_index =
     \<lparr>t_files = Some [\<lparr>f_id = 1, f_path = ''app/main.x''\<rparr>, \<lparr>f_id = 2, f_path = ''app/util.x''\<rparr>],
      t_symbols = Some
        [\<lparr>s_id = 1, s_file_id = 1, s_name = ''main'', s_kind = ''function'',
          s_line_start = Some 1, s_is_exported = 0\<rparr>,
         \<lparr>s_id = 2, s_file_id = 2, s_name = ''helper'', s_kind = ''function'',
          s_line_start = Some 1, s_is_exported = 0\<rparr>],
      t_edges = Some
        (map (\<lambda>l. \<lparr>e_source_id = 1, e_target_id = 2, e_kind = ''call'', e_line = Some (int l)\<rparr>)
           [1..<22]),
      t_symbol_metrics = Some [],
      t_graph_metrics = Some
        [\<lparr>gm_symbol_id = 1, gm_in_degree = Some 0, gm_out_degree = Some 21,
          gm_betweenness = Some 0\<rparr>,
         \<lparr>gm_symbol_id = 2, gm_in_degree = Some 21, gm_out_degree = Some 0,
          gm_betweenness = Some 0\<rparr>]\<rparr>"

text \<open>Two functions that call each other, in two files.\<close>

definition two_file_cycle :: conn where
  "two_file_cycle =
     \<lparr>t_files = Some [\<lparr>f_id = 1, f_path = ''a.x''\<rparr>, \<lparr>f_id = 2, f_path = ''b.x''\<rparr>],
      t_symbols = Some
        [\<lparr>s_id = 1, s_file_id = 1, s_name = ''foo'', s_kind = ''function'',
          s_line_start = Some 1, s_is_exported = 0\<rparr>,
         \<lparr>s_id = 2, s_file_id = 2, s_name = ''bar'', s_kind = ''function'',
          s_line_start = Some 1, s_is_exported = 0\<rparr>],
      t_edges = Some
        [\<lparr>e_source_id = 1, e_target_id = 2, e_kind = ''call'', e_line = Some 2\<rparr>,
         \<lparr>e_source_id = 2, e_target_id = 1, e_kind = ''call'', e_line = Some 2\<rparr>],
      t_symbol_metrics = Some [],
      t_graph_metrics = Some []\<rparr>"

text \<open>The handler index when the table of symbol metrics cannot be read.\<close>

definition no_metrics_index :: conn where
  "no_metrics_index = handlers_index\<lparr>t_symbol_metrics := None, t_graph_metrics := None\<rparr>"

text \<open>The handler index with 101 calls from the handler into the database layer.\<close>

definition busy_index :: conn where
  "busy_index =
     handlers_index\<lparr>t_edges := Some
        (map (\<lambda>l. \<lparr>e_source_id = 1, e_target_id = 2, e_kind = ''call'', e_line = Some (int l)\<rparr>)
           [1..<102])\<rparr>"

definition health_min_rule :: rule where
  "health_min_rule =
     empty_rule\<lparr>r_name := Some ''Health score minimum'', r_type := Some ''metric'',
                r_metric := Some ''health_score'', r_min := Some (IntNum 100)\<rparr>"

definition complexity_rule :: rule where
  "complexity_rule =
     empty_rule\<lparr>r_name := Some ''Max function complexity'', r_type := Some ''metric'',
                r_metric := Some ''cognitive_complexity'', r_max := Some (IntNum 25)\<rparr>"

definition god_rule :: rule where
  "god_rule =
     empty_rule\<lparr>r_name := Some ''No god components'', r_type := Some ''metric'',
                r_metric := Some ''god_components'', r_max := Some (IntNum 0)\<rparr>"

section \<open>The health score as the specification words it\<close>

text \<open>
  The score of the specification: start at 100, subtract twice the tangle ratio in percent,
  one per god component up to 20, one per full 5 percent of dead exports up to 15, and
  \<open>min(30, 2 * critical_issues + warning_issues)\<close>; clamp to the range from 0 to 100.
\<close>

definition spec_health_score :: "rat \<Rightarrow> nat \<Rightarrow> rat \<Rightarrow> nat \<Rightarrow> nat \<Rightarrow> rat" where
  "spec_health_score tangle_ratio god_components dead_export_pct critical_issues warning_issues =
     max 0 (min 100
       (100 - 2 * (tangle_ratio * 100)
            - of_nat (min 20 god_components)
            - min 15 (of_int \<lfloor>dead_export_pct / 5\<rfloor>)
            - of_nat (min 30 (2 * critical_issues + warning_issues))))"

section \<open>Expected violation lists\<close>

text \<open>
  The violations of a global metric with the value \<open>v\<close>, for a rule named \<open>n\<close>: one for
  the maximum when \<open>v\<close> exceeds it, then one for the minimum when \<open>v\<close> is below it.
\<close>

definition bound_violations ::
  "string \<Rightarrow> string \<Rightarrow> int \<Rightarrow> number option \<Rightarrow> number option \<Rightarrow> violation list" where
  "bound_violations n metric v max_val min_val =
     (case max_val of
        Some mx \<Rightarrow>
          if num_value mx < of_int v then [MetricViolation n metric MaxBound v mx] else []
      | None \<Rightarrow> []) @
     (case min_val of
        Some mn \<Rightarrow>
          if of_int v < num_value mn then [MetricViolation n metric MinBound v mn] else []
      | None \<Rightarrow> [])"

text \<open>The violation of one offending symbol: its value and the threshold.\<close>

definition complexity_violation :: "string \<Rightarrow> number \<Rightarrow> complexity_row \<Rightarrow> violation" where
  "complexity_violation n threshold r =
     ComplexityViolation n (c_name r) (c_cognitive_complexity r) threshold (c_path r)
       (c_line_start r)"


section \<open>The fallback rule loader (commands/cmd_fitness.py)\<close>

text \<open>
  The values the loader stores: a boolean, an int, a float or the text itself. The type of
  floats and \<open>float(val)\<close> (a float, or \<open>None\<close> for \<open>ValueError\<close>) are parameters of
  the model.
\<close>

datatype 'f yaml_value = YBool bool | YInt int | YFloat 'f | YStr string

text \<open>\<open>s.startswith(p)\<close>.\<close>

definition starts_with :: "string \<Rightarrow> string \<Rightarrow> bool" where
  "starts_with s p = (take (length p) s = p)"

text \<open>\<open>s.split(":", 1)\<close> for a text with a colon: the parts before and after the first one.\<close>

definition split_colon :: "string \<Rightarrow> string \<times> string" where
  "split_colon s =
     (takeWhile (\<lambda>c. c \<noteq> CHR '':'') s, drop 1 (dropWhile (\<lambda>c. c \<noteq> CHR '':'') s))"

text \<open>\<open>s.strip().strip('"').strip("'")\<close>; the two quote characters are code points 34 and 39.\<close>

definition unquote :: "string \<Rightarrow> string" where
  "unquote s = strip_chars (\<lambda>c. c = CHR 0x27) (strip_chars (\<lambda>c. c = CHR 0x22) (strip s))"

text \<open>
  \<open>int(val)\<close> on a text: blanks around it are dropped, then an optional sign, then
  digits, where single underscores may stand between digits. A text of more than 4300
  digits is refused (the default limit of the interpreter). \<open>None\<close> is \<open>ValueError\<close>.
  The blanks the number constructors drop are the code points 9-13, 32, 133 and 160: the
  separators 28-31, which \<open>str.strip()\<close> removes, are refused here.
\<close>

definition number_isspace :: "char \<Rightarrow> bool" where
  "number_isspace c =
     (let n = (of_char c :: nat) in (9 \<le> n \<and> n \<le> 13) \<or> n = 32 \<or> n = 133 \<or> n = 160)"

definition digit_value :: "char \<Rightarrow> nat option" where
  "digit_value c =
     (let n = (of_char c :: nat) in if 48 \<le> n \<and> n \<le> 57 then Some (n - 48) else None)"

fun int_digits :: "nat \<Rightarrow> nat \<Rightarrow> string \<Rightarrow> (nat \<times> nat) option" where
  "int_digits acc n [] = Some (acc, n)"
| "int_digits acc n (c # cs) =
     (case digit_value c of
        Some d \<Rightarrow> int_digits (10 * acc + d) (Suc n) cs
      | None \<Rightarrow>
          if c = CHR ''_'' then
            (case cs of
               [] \<Rightarrow> None
             | c' # cs' \<Rightarrow>
                 (case digit_value c' of
                    Some d \<Rightarrow> int_digits (10 * acc + d) (Suc n) cs'
                  | None \<Rightarrow> None))
          else None)"

definition py_int :: "string \<Rightarrow> int option" where
  "py_int s =
     (let t = strip_chars number_isspace s;
          (negative, body) = (case t of
                                [] \<Rightarrow> (False, [])
                              | c # cs \<Rightarrow> if c = CHR ''-'' then (True, cs)
                                          else if c = CHR ''+'' then (False, cs)
                                          else (False, t))
      in case body of
           [] \<Rightarrow> None
         | c # cs \<Rightarrow>
             (case digit_value c of
                None \<Rightarrow> None
              | Some d \<Rightarrow>
                  (case int_digits d 1 cs of
                     None \<Rightarrow> None
                   | Some (v, n) \<Rightarrow>
                       if 4300 < n then None
                       else Some (if negative then - int v else int v))))"

text \<open>
  The type conversions of the loader: \<open>true\<close> and \<open>false\<close> in any case, then \<open>int\<close>,
  then \<open>float\<close>, else the text.
\<close>

definition convert :: "(string \<Rightarrow> 'f option) \<Rightarrow> string \<Rightarrow> 'f yaml_value" where
  "convert py_float val =
     (if lower val = ''true'' then YBool True
      else if lower val = ''false'' then YBool False
      else (case py_int val of
              Some i \<Rightarrow> YInt i
            | None \<Rightarrow> (case py_float val of Some f \<Rightarrow> YFloat f | None \<Rightarrow> YStr val)))"

text \<open>\<open>d[k] = v\<close> on a dict in insertion order: a known key keeps its place.\<close>

fun dict_set :: "'k \<Rightarrow> 'v \<Rightarrow> ('k \<times> 'v) list \<Rightarrow> ('k \<times> 'v) list" where
  "dict_set k v [] = [(k, v)]"
| "dict_set k v ((k', v') # d) = (if k' = k then (k, v) # d else (k', v') # dict_set k v d)"

type_synonym 'f parse_state =
  "(string \<times> 'f yaml_value) list list \<times> (string \<times> 'f yaml_value) list option"

text \<open>\<open>if current_rule: rules.append(current_rule)\<close>; an empty dict is false.\<close>

definition append_current ::
  "(string \<times> 'f yaml_value) list list \<Rightarrow> (string \<times> 'f yaml_value) list option \<Rightarrow>
   (string \<times> 'f yaml_value) list list" where
  "append_current rules current_rule =
     (case current_rule of
        Some cr \<Rightarrow> if cr \<noteq> [] then rules @ [cr] else rules
      | None \<Rightarrow> rules)"

text \<open>
  One turn of the loop over the lines, on the pair of \<open>rules\<close> and \<open>current_rule\<close>.
\<close>

definition parse_line ::
  "(string \<Rightarrow> 'f option) \<Rightarrow> string \<Rightarrow> 'f parse_state \<Rightarrow> 'f parse_state" where
  "parse_line py_float line st =
     (let rules = fst st; current_rule = snd st; stripped = strip line
      in if stripped = [] \<or> starts_with stripped ''#'' then (rules, current_rule)
         else if starts_with stripped ''- name:'' then
           (append_current rules current_rule,
            Some [(''name'', YStr (unquote (snd (split_colon stripped))))])
         else
           (case current_rule of
              Some cr \<Rightarrow>
                if cr \<noteq> [] \<and> CHR '':'' \<in> set stripped then
                  (rules, Some (dict_set (strip (fst (split_colon stripped)))
                                  (convert py_float (unquote (snd (split_colon stripped)))) cr))
                else (rules, current_rule)
            | None \<Rightarrow> (rules, current_rule)))"

fun parse_loop ::
  "(string \<Rightarrow> 'f option) \<Rightarrow> string list \<Rightarrow> 'f parse_state \<Rightarrow> 'f parse_state" where
  "parse_loop py_float [] st = st"
| "parse_loop py_float (line # lines) st = parse_loop py_float lines (parse_line py_float line st)"

text \<open>\<open>_parse_simple_yaml\<close> on the text of the file.\<close>

definition parse_simple_yaml ::
  "(string \<Rightarrow> 'f option) \<Rightarrow> string \<Rightarrow> (string \<times> 'f yaml_value) list list" where
  "parse_simple_yaml py_float text =
     (case parse_loop py_float (split_on CHR 0x0A text) ([], None) of
        (rules, current_rule) \<Rightarrow> append_current rules current_rule)"

section \<open>The flat key:value dialect as the specification words it\<close>

text \<open>
  A blank line or a comment is ignored; a line that begins \<open>- name:\<close> starts a rule named
  by the rest of the line without its quotes; a line with a colon attaches its pair to the
  rule.
\<close>

definition ignored_line :: "string \<Rightarrow> bool" where
  "ignored_line line = (strip line = [] \<or> starts_with (strip line) ''#'')"

definition name_line :: "string \<Rightarrow> bool" where
  "name_line line = starts_with (strip line) ''- name:''"

definition new_rule :: "string \<Rightarrow> (string \<times> 'f yaml_value) list" where
  "new_rule line = [(''name'', YStr (unquote (drop 7 (strip line))))]"

definition attach_pair ::
  "(string \<Rightarrow> 'f option) \<Rightarrow> string \<Rightarrow> (string \<times> 'f yaml_value) list \<Rightarrow>
   (string \<times> 'f yaml_value) list" where
  "attach_pair py_float line rule =
     (if CHR '':'' \<in> set (strip line)
      then dict_set (strip (fst (split_colon (strip line))))
             (convert py_float (unquote (snd (split_colon (strip line))))) rule
      else rule)"

text \<open>
  The rules of lines that start at a name line: the name line with the pairs of the lines
  up to the next name line, then the rules of the rest.
\<close>

function spec_rules ::
  "(string \<Rightarrow> 'f option) \<Rightarrow> string list \<Rightarrow> (string \<times> 'f yaml_value) list list" where
  "spec_rules py_float [] = []"
| "spec_rules py_float (line # lines) =
     fold (attach_pair py_float) (takeWhile (\<lambda>l. \<not> name_line l) lines) (new_rule line) #
     spec_rules py_float (dropWhile (\<lambda>l. \<not> name_line l) lines)"
  by pat_completeness auto
termination
  by (relation "measure (\<lambda>(py_float, lines). length lines)")
     (auto simp: length_dropWhile_le less_Suc_eq_le)

text \<open>
  The dialect: drop the ignored lines, drop what comes before the first name line, and read
  the rules.
\<close>

definition spec_parse ::
  "(string \<Rightarrow> 'f option) \<Rightarrow> string \<Rightarrow> (string \<times> 'f yaml_value) list list" where
  "spec_parse py_float text =
     spec_rules py_float
       (dropWhile (\<lambda>l. \<not> name_line l)
          (filter (\<lambda>l. \<not> ignored_line l) (split_on CHR 0x0A text)))"

section \<open>An example rule file\<close>

text \<open>
  \<open>float(val)\<close> for the examples, on plain decimals: digits, a point, digits.
\<close>

definition decimal_float :: "string \<Rightarrow> rat option" where
  "decimal_float s =
     (let t = strip_chars number_isspace s;
          a = takeWhile (\<lambda>c. c \<noteq> CHR ''.'') t;
          b = drop 1 (dropWhile (\<lambda>c. c \<noteq> CHR ''.'') t)
      in case (int_digits 0 0 a, int_digits 0 0 b) of
           (Some (x, m), Some (y, n)) \<Rightarrow>
             if 0 < m \<and> 0 < n \<and> CHR ''_'' \<notin> set t
             then Some (float_round (of_nat x + of_nat y / 10 ^ n))
             else None
         | _ \<Rightarrow> None)"

text \<open>A rule file; code point 10 ends a line, code point 34 is the double quote.\<close>

definition example_yaml :: string where
  "example_yaml =
     ''rules:'' @ [CHR 0x0A] @
     ''  # thresholds'' @ [CHR 0x0A] @
     ''  - name: '' @ [CHR 0x22] @ ''No cycles'' @ [CHR 0x22] @ [CHR 0x0A] @
     ''    type: metric'' @ [CHR 0x0A] @
     ''    metric: cycles'' @ [CHR 0x0A] @
     ''    max: 0'' @ [CHR 0x0A] @
     [CHR 0x0A] @
     ''  - name: Handlers'' @ [CHR 0x0A] @
     ''    allow: False'' @ [CHR 0x0A] @
     ''    min: 0.5'' @ [CHR 0x0A]"

section \<open>The exit status of the process and further examples\<close>







text \<open>The complexity rule without a name, and with a maximum below the 64-bit integers.\<close>

definition nameless_complexity_rule :: rule where
  "nameless_complexity_rule = complexity_rule\<lparr>r_name := None\<rparr>"

definition low_max_rule :: rule where
  "low_max_rule = complexity_rule\<lparr>r_max := Some (IntNum (- 99999999999999999999999))\<rparr>"

section \<open>Verified properties\<close>

lemmas str_defs = strip_def strip_chars_def py_isspace_def

subsection \<open>The MCP helper\<close>

text \<open>
  C7, as stated, fails: the claim says that every failing invocation is returned as a dict
  with a \<open>summary\<close> whose verdict is \<open>error\<close>. A command that exits with code 1, nothing
  on standard output and \<open>boom\<close> on standard error is returned as the dict
  \<open>{"error": "boom", "exit_code": 1}\<close>, which has no \<open>summary\<close> key.
\<close>

theorem run_roam_failure_has_no_summary:
  "failing_invocation rejects_all (Completed 1 [] ''boom'') \<and>
   run_roam rejects_all (Completed 1 [] ''boom'') =
     PDict [(''error'', PStr ''boom''), (''exit_code'', PInt 1)] \<and>
   dict_get (run_roam rejects_all (Completed 1 [] ''boom'')) ''summary'' = None"
  by (simp add: failing_invocation_def run_roam_def dict_get_def str_defs)

text \<open>
  C7, amended: for every failing invocation (a non-zero exit code, a blank standard output,
  a timeout, another exception of the call, or an output that is not valid JSON) the helper
  returns a dict that has a text under \<open>error\<close> and no \<open>summary\<close> key, as its docstring
  says; after a non-zero exit code or a blank standard output the dict also has the exit
  code under \<open>exit_code\<close>.
\<close>

theorem run_roam_failure_is_error_dict:
  assumes "failing_invocation json_loads res"
  shows "is_str (dict_get (run_roam json_loads res) ''error'') \<and>
         dict_get (run_roam json_loads res) ''summary'' = None \<and>
         (\<forall>returncode out err.
             res = Completed returncode out err \<and> (returncode \<noteq> 0 \<or> strip out = []) \<longrightarrow>
             dict_get (run_roam json_loads res) ''exit_code'' = Some (PInt returncode))"
proof (cases res)
  case (Completed returncode out err)
  show ?thesis
  proof (cases "returncode = 0 \<and> strip out \<noteq> []")
    case True
    with assms Completed obtain m where
      "json_loads out = JSONDecodeError m \<or> json_loads out = LoadsRaised m"
      by (auto simp: failing_invocation_def split: loads_outcome.splits)
    with True Completed show ?thesis
      by (auto simp: run_roam_def dict_get_def is_str_def)
  next
    case False
    with Completed show ?thesis
      by (auto simp: run_roam_def dict_get_def is_str_def)
  qed
next
  case TimeoutExpired
  then show ?thesis by (simp add: run_roam_def dict_get_def is_str_def)
next
  case (RunRaised m)
  then show ?thesis by (simp add: run_roam_def dict_get_def is_str_def)
qed

theorem run_roam_failure_is_error_dict_witness:
  "failing_invocation rejects_all (Completed 0 ''{'' []) \<and>
   is_str (dict_get (run_roam rejects_all (Completed 0 ''{'' [])) ''error'') \<and>
   dict_get (run_roam rejects_all (Completed 0 ''{'' [])) ''summary'' = None"
proof -
  have f: "failing_invocation rejects_all (Completed 0 ''{'' [])"
    by (simp add: failing_invocation_def rejects_all_def)
  from run_roam_failure_is_error_dict [OF f] f show ?thesis by simp
qed

subsection \<open>Envelope validation\<close>

text \<open>
  What the validator accepts: the six required fields are present, the summary is a dict
  (its content is not looked at) and the schema version has three parts of digits.
\<close>

lemma validate_envelope_accepts_iff:
  "validate_envelope data = Inr (True, []) \<longleftrightarrow>
     (\<forall>field \<in> set required_fields. map_of data field \<noteq> None) \<and>
     (\<exists>d. map_of data ''summary'' = Some (PDict d)) \<and>
     (\<exists>v. map_of data ''schema_version'' = Some (PStr v) \<and>
          length (split_on CHR ''.'' v) = 3 \<and> list_all isdigit (split_on CHR ''.'' v))"
proof -
  have missing: "filter (\<lambda>field. map_of data field = None) required_fields = [] \<longleftrightarrow>
                 (\<forall>field \<in> set required_fields. map_of data field \<noteq> None)"
    by (simp add: filter_empty_conv)
  have sv: "''schema_version'' \<in> set required_fields" and su: "''summary'' \<in> set required_fields"
    by (simp_all add: required_fields_def)
  show ?thesis
  proof (cases "map_of data ''schema_version''")
    case None
    with sv have "\<not> (\<forall>field \<in> set required_fields. map_of data field \<noteq> None)" by blast
    with None missing show ?thesis
      by (auto simp: validate_envelope_def Let_def)
  next
    case (Some x)
    show ?thesis
    proof (cases x)
      case (PStr v)
      show ?thesis
      proof (cases "map_of data ''summary''")
        case None
        with su have "\<not> (\<forall>field \<in> set required_fields. map_of data field \<noteq> None)" by blast
        with None Some PStr missing show ?thesis
          by (auto simp: validate_envelope_def Let_def)
      next
        case (Some y)
        with \<open>map_of data ''schema_version'' = Some x\<close> PStr missing show ?thesis
          by (cases y) (auto simp: validate_envelope_def Let_def is_dict_def)
      qed
    qed (use Some in \<open>simp_all add: validate_envelope_def Let_def\<close>)
  qed
qed

text \<open>
  C3: the claim says that a dict whose summary lacks a \<open>verdict\<close> key is rejected, and the
  schema the validator checks against describes \<open>summary\<close> as a dict containing at minimum
  a verdict string. The code accepts such a dict: with the six required fields, a summary
  dict without \<open>verdict\<close> and the schema version 1.0.0 it returns \<open>(True, [])\<close>.
\<close>

theorem validate_envelope_accepts_missing_verdict:
  "validate_envelope envelope_without_verdict = Inr (True, []) \<and>
   map_of envelope_without_verdict ''summary'' = Some (PDict [(''rules_checked'', PInt 0)]) \<and>
   dict_get (PDict [(''rules_checked'', PInt 0)]) ''verdict'' = None"
  by (simp add: validate_envelope_def envelope_without_verdict_def required_fields_def
      is_dict_def isdigit_def py_isdigit_char_def dict_get_def)

theorem validate_envelope_accepts_missing_verdict_witness:
  "\<exists>errors. validate_envelope envelope_without_verdict = Inr (True, errors)"
  using validate_envelope_accepts_missing_verdict by blast

subsection \<open>Exit code of \<open>deps\<close>\<close>

text \<open>
  C6, as stated, fails: the claim says that \<open>deps\<close> never exits with code 1. For a path
  found neither exactly nor by suffix match the command ends with \<open>SystemExit(1)\<close>.
\<close>

theorem deps_exits_1_when_not_found:
  "file_by_path handlers_index ''q.x'' = Inr None \<and>
   file_by_suffix handlers_index ''q.x'' = Inr None \<and>
   deps handlers_index ''q.x'' = Inr (SystemExit ''File not found in index: q.x'' 1)"
  by (simp add: deps_def normalise_path_def file_by_path_def file_by_suffix_def
      handlers_index_def ascii_lower_def)

text \<open>
  C6, amended: exit code 1 is also the code of \<open>deps\<close> for a file that is not in the
  index. The command ends with \<open>SystemExit\<close> exactly when the normalised path is found
  neither exactly nor by suffix match, and then the code is 1 and the message names the
  path.
\<close>

theorem deps_not_found_exits_1:
  "((\<exists>msg code. deps conn path0 = Inr (SystemExit msg code)) \<longleftrightarrow>
      file_by_path conn (normalise_path path0) = Inr None \<and>
      file_by_suffix conn (normalise_path path0) = Inr None) \<and>
   (deps conn path0 = Inr (SystemExit msg code) \<longrightarrow>
      code = 1 \<and> msg = ''File not found in index: '' @ normalise_path path0)"
  by (auto simp: deps_def Let_def split: sum.splits option.splits)

theorem deps_not_found_exits_1_witness:
  "deps handlers_index ''q.x'' = Inr (SystemExit ''File not found in index: q.x'' 1) \<and>
   file_by_path handlers_index (normalise_path ''q.x'') = Inr None \<and>
   file_by_suffix handlers_index (normalise_path ''q.x'') = Inr None \<and>
   (1::int) = 1 \<and> ''File not found in index: q.x'' = ''File not found in index: '' @ normalise_path ''q.x''"
proof -
  have d: "deps handlers_index ''q.x'' = Inr (SystemExit ''File not found in index: q.x'' 1)"
    by (simp add: deps_def normalise_path_def file_by_path_def file_by_suffix_def
        handlers_index_def ascii_lower_def)
  from deps_not_found_exits_1 [of handlers_index "''q.x''" "''File not found in index: q.x''" 1] d
  show ?thesis by blast
qed

subsection \<open>Dependency rules\<close>

text \<open>
  With \<open>allow\<close> false or absent, a named rule reports exactly the edges whose source file
  matches \<open>from\<close> and whose target file matches \<open>to\<close>.
\<close>

lemma dependency_loop_allow_false:
  assumes "r_name rule = Some n" and "\<not> get_or (r_allow rule) False"
  shows "dependency_loop lib rule rows violations =
           Inr (violations @
                map (\<lambda>r. DependencyViolation n (d_source_name r) (d_target_name r)
                            (d_source_path r) (line_or_unknown (d_line r))
                            (d_target_path r) (d_kind r))
                    (filter (\<lambda>r. fnmatch lib (d_source_path r) (get_or (r_from rule) ''**'') \<and>
                                  fnmatch lib (d_target_path r) (get_or (r_to rule) ''**'')) rows))"
  using assms
  by (induction rows arbitrary: violations) (simp_all add: Let_def append_violation_def)


text \<open>
  C2: the claim says that with \<open>allow\<close> true an edge is a violation when its source file
  matches \<open>from\<close> and its target file does not match \<open>to\<close>, and the docstring of the checker
  promises a check for \<open>allow=true\<close>. The code reports nothing: the only edge of the index
  goes from \<open>handlers/h.x\<close>, which matches \<open>handlers/**\<close>, to \<open>db/d.x\<close>, which does not
  match \<open>api/**\<close>, and the rule with \<open>allow\<close> true returns no violation.
\<close>

theorem allow_true_reports_no_violation:
  "dependency_rows handlers_index =
     Inr [\<lparr>d_kind = ''call'', d_line = Some 5, d_source_path = ''handlers/h.x'',
           d_target_path = ''db/d.x'', d_source_name = ''serve'', d_target_name = ''query''\<rparr>] \<and>
   fnmatch example_lib ''handlers/h.x'' ''handlers/**'' \<and>
   \<not> fnmatch example_lib ''db/d.x'' ''api/**'' \<and>
   r_allow only_api_rule = Some True \<and>
   check_dependency_rule example_lib only_api_rule handlers_index = Inr []"
  by (simp add: check_dependency_rule_def dependency_rows_def handlers_index_def example_lib_def
      only_api_rule_def empty_rule_def get_or_def)

theorem allow_true_reports_no_violation_witness:
  "\<exists>rows. dependency_rows handlers_index = Inr rows \<and> length rows = 1 \<and>
          check_dependency_rule example_lib only_api_rule handlers_index = Inr []"
  using allow_true_reports_no_violation by simp

subsection \<open>The health score of a metric rule\<close>

lemma pow2_pos: "0 < pow2 e"
  by (simp add: pow2_def)

lemma round_half_even_nonneg: "0 \<le> q \<Longrightarrow> 0 \<le> round_half_even q"
  by (auto simp: round_half_even_def Let_def)

lemma float_round_nonneg: "0 \<le> q \<Longrightarrow> 0 \<le> float_round q"
proof -
  assume q: "0 \<le> q"
  show ?thesis
  proof (cases "q = 0")
    case True
    then show ?thesis by (simp add: float_round_def)
  next
    case False
    with q have pos: "0 < q" by simp
    have "0 \<le> \<bar>q\<bar> / pow2 (binary_exponent \<bar>q\<bar> - 52)"
      using pow2_pos [of "binary_exponent \<bar>q\<bar> - 52"] by simp
    then have "0 \<le> round_half_even (\<bar>q\<bar> / pow2 (binary_exponent \<bar>q\<bar> - 52))"
      by (rule round_half_even_nonneg)
    with pos pow2_pos [of "binary_exponent \<bar>q\<bar> - 52"] show ?thesis
      by (simp add: float_round_def Let_def)
  qed
qed

lemma health_score_range: "0 \<le> health_score c t \<and> health_score c t \<le> 100"
proof -
  have "0 \<le> truediv c t"
    unfolding truediv_def by (rule float_round_nonneg) simp
  then have "0 \<le> fmul (truediv c t) 100"
    unfolding fmul_def by (intro float_round_nonneg) simp
  then have "0 \<le> (if t \<noteq> 0 then fmul (truediv c t) 100 else 0)" by simp
  then have "0 \<le> fmul (if t \<noteq> 0 then fmul (truediv c t) 100 else 0) 2"
    unfolding fmul_def by (intro float_round_nonneg) simp
  then have "0 \<le> int_of_float (fmul (if t \<noteq> 0 then fmul (truediv c t) 100 else 0) 2)"
    by (simp add: int_of_float_def)
  then show ?thesis by (simp add: health_score_def Let_def)
qed

text \<open>
  The score is computed in doubles: with 29 of 100 symbols in cycles the percentage is
  28.999999999999996, its double truncates to 57, and the score is 43 and not 42.
\<close>

lemma health_score_29_of_100: "health_score 29 100 = 43"
  by code_simp

lemma check_bounds_named:
  "r_name rule = Some n \<Longrightarrow>
   check_bounds rule metric v vs = (None, vs @ bound_violations n metric v (r_max rule) (r_min rule))"
  by (simp add: check_bounds_def append_violation_def bound_violations_def split: option.splits)

text \<open>
  C4, as stated, fails: the claim says that the score of a \<open>health_score\<close> rule also loses
  one point per god component, so that a rule is violated when that score leaves its
  bounds. In an index with no cycle, two god components, no dead export and no issue the
  specification's score is 98, below the rule's minimum of 100, and the checker reports no
  violation: its own score is 100.
\<close>

theorem health_score_ignores_god_components:
  "build_symbol_graph example_lib god_index = Inr ([1, 2], [(1, 2)]) \<and>
   find_cycles example_lib ([1, 2], [(1, 2)]) = Inr [] \<and>
   count_god_components god_index = Inr 2 \<and>
   count_dead_exports god_index = Inr 0 \<and>
   spec_health_score 0 2 0 0 0 = 98 \<and>
   r_min health_min_rule = Some (IntNum 100) \<and>
   check_metric_rule example_lib health_min_rule god_index = Inr []"
  by code_simp

text \<open>
  C4, amended: the score of a \<open>health_score\<close> rule starts at 100 and subtracts only
  \<open>int(cycle_pct * 2)\<close>, where \<open>cycle_pct\<close> is the number of symbols in cycles over the number
  of symbols, times 100, computed in doubles; it is clamped below at 0 and so lies between 0
  and 100. For a named rule over a graph that is built, the checker reports one violation
  when the score exceeds \<open>max\<close> and one when it is below \<open>min\<close>, and nothing for a graph
  without symbols.
\<close>

theorem health_score_rule:
  assumes "r_metric rule = Some ''health_score''" and "r_name rule = Some n"
    and "build_symbol_graph lib conn = Inr G" and "find_cycles lib G = Inr cycles"
  shows "check_metric_rule lib rule conn =
           Inr (if length (fst G) = 0 then []
                else bound_violations n ''health_score''
                       (health_score (sum_list (map length cycles)) (length (fst G)))
                       (r_max rule) (r_min rule)) \<and>
         health_score (sum_list (map length cycles)) (length (fst G)) =
           max 0 (100 - int_of_float (fmul
             (if length (fst G) \<noteq> 0
              then fmul (truediv (sum_list (map length cycles)) (length (fst G))) 100 else 0) 2)) \<and>
         0 \<le> health_score (sum_list (map length cycles)) (length (fst G)) \<and>
         health_score (sum_list (map length cycles)) (length (fst G)) \<le> 100"
  using assms health_score_range [of "sum_list (map length cycles)" "length (fst G)"]
  by (simp add: check_metric_rule_def get_or_def check_bounds_named health_score_def Let_def)

theorem health_score_rule_witness:
  "r_metric health_min_rule = Some ''health_score'' \<and>
   r_name health_min_rule = Some ''Health score minimum'' \<and>
   build_symbol_graph example_lib two_file_cycle = Inr ([1, 2], [(1, 2), (2, 1)]) \<and>
   find_cycles example_lib ([1, 2], [(1, 2), (2, 1)]) = Inr [[1, 2]] \<and>
   check_metric_rule example_lib health_min_rule two_file_cycle =
     Inr [MetricViolation ''Health score minimum'' ''health_score'' MinBound 0 (IntNum 100)]"
proof -
  have a: "r_metric health_min_rule = Some ''health_score''"
    and b: "r_name health_min_rule = Some ''Health score minimum''"
    and m: "r_max health_min_rule = None" "r_min health_min_rule = Some (IntNum 100)"
    by (simp_all add: health_min_rule_def empty_rule_def)
  have c: "build_symbol_graph example_lib two_file_cycle = Inr ([1, 2], [(1, 2), (2, 1)])"
    by (simp add: example_lib_def graph_of_index_def two_file_cycle_def)
  have d: "find_cycles example_lib ([1, 2], [(1, 2), (2, 1)]) = Inr [[1, 2]]"
    by code_simp
  have s: "health_score 2 2 = 0"
    by code_simp
  have l: "sum_list (map length [[1::nat, 2]]) = 2"
    "length (fst ([1::nat, 2], [(1::nat, 2::nat), (2, 1)])) = 2"
    by simp_all
  have "check_metric_rule example_lib health_min_rule two_file_cycle =
          Inr (if length (fst ([1::nat, 2], [(1::nat, 2::nat), (2, 1)])) = 0 then []
               else bound_violations ''Health score minimum'' ''health_score''
                      (health_score (sum_list (map length [[1::nat, 2]]))
                         (length (fst ([1::nat, 2], [(1::nat, 2::nat), (2, 1)]))))
                      (r_max health_min_rule) (r_min health_min_rule))"
    using health_score_rule [OF a b c d] by (rule conjunct1)
  then have "check_metric_rule example_lib health_min_rule two_file_cycle =
          Inr [MetricViolation ''Health score minimum'' ''health_score'' MinBound 0 (IntNum 100)]"
    unfolding l s m by (simp add: bound_violations_def num_value_def)
  with a b c d show ?thesis by simp
qed

subsection \<open>Storage errors in a metric rule\<close>

text \<open>
  C5, as stated, fails: the claim says that a storage error during a metric check is never
  turned into a passing rule. When the table of symbol metrics cannot be read, the query of
  the \<open>cognitive_complexity\<close> check raises, the checker returns no violation, and the
  command reports the rule as passed and exits with code 0.
\<close>

theorem storage_error_passes_complexity_rule:
  "complexity_rows no_metrics_index (IntNum 25) = Inl StorageError \<and>
   check_metric_rule example_lib complexity_rule no_metrics_index = Inr [] \<and>
   fitness example_lib True False None False [complexity_rule] no_metrics_index =
     Inr \<lparr>echoed = JsonEnvelope
            \<lparr>rules_checked = 1, passed = 1, failed = 0, total_violations = 0\<rparr>
            [\<lparr>rr_name = ''Max function complexity'', rr_type = ''metric'', rr_status = PASS,
              rr_violations = 0, rr_reason = None, rr_link = None\<rparr>] [],
          exit_code = 0\<rparr>"
  by code_simp

text \<open>
  C5, amended: an exception raised while the graph is built or its cycles are found for the
  \<open>cycles\<close> and \<open>health_score\<close> checks, and a storage error of the \<open>cognitive_complexity\<close>
  query, are caught inside the checker, which then returns no violation; a storage error
  propagates out of the checker only from the count metrics \<open>god_components\<close>,
  \<open>bottlenecks\<close> and \<open>dead_exports\<close>.
\<close>

theorem metric_rule_swallows_storage_errors:
  "(r_metric rule = Some ''cycles'' \<or> r_metric rule = Some ''health_score'' \<longrightarrow>
      build_symbol_graph lib conn = Inl e \<or>
      (\<exists>G. build_symbol_graph lib conn = Inr G \<and> find_cycles lib G = Inl e) \<longrightarrow>
      check_metric_rule lib rule conn = Inr []) \<and>
   (r_metric rule = Some ''cognitive_complexity'' \<longrightarrow>
      t_symbol_metrics conn = None \<or> t_symbols conn = None \<or> t_files conn = None \<longrightarrow>
      complexity_rows conn (get_or (r_max rule) (IntNum 999)) = Inl StorageError \<and>
      check_metric_rule lib rule conn = Inr []) \<and>
   (r_metric rule = Some ''god_components'' \<or> r_metric rule = Some ''bottlenecks'' \<or>
    r_metric rule = Some ''dead_exports'' \<longrightarrow>
      t_graph_metrics conn = None \<longrightarrow> check_metric_rule lib rule conn = Inl StorageError)"
  by (auto simp: check_metric_rule_def get_or_def Let_def complexity_rows_def
      check_count_metric_def count_god_components_def count_bottlenecks_def
      count_dead_exports_def split: option.splits)

theorem metric_rule_swallows_storage_errors_witness:
  "r_metric complexity_rule = Some ''cognitive_complexity'' \<and>
   t_symbol_metrics no_metrics_index = None \<and>
   complexity_rows no_metrics_index (get_or (r_max complexity_rule) (IntNum 999)) =
     Inl StorageError \<and>
   check_metric_rule example_lib complexity_rule no_metrics_index = Inr [] \<and>
   r_metric god_rule = Some ''god_components'' \<and>
   t_graph_metrics no_metrics_index = None \<and>
   check_metric_rule example_lib god_rule no_metrics_index = Inl StorageError"
proof -
  have a: "r_metric complexity_rule = Some ''cognitive_complexity''"
    by (simp add: complexity_rule_def empty_rule_def)
  have b: "t_symbol_metrics no_metrics_index = None" "t_graph_metrics no_metrics_index = None"
    by (simp_all add: no_metrics_index_def)
  have c: "r_metric god_rule = Some ''god_components''"
    by (simp add: god_rule_def empty_rule_def)
  from metric_rule_swallows_storage_errors [of complexity_rule example_lib no_metrics_index] a b
  have 1: "complexity_rows no_metrics_index (get_or (r_max complexity_rule) (IntNum 999)) =
             Inl StorageError \<and>
           check_metric_rule example_lib complexity_rule no_metrics_index = Inr []"
    by blast
  from metric_rule_swallows_storage_errors [of god_rule example_lib no_metrics_index] b c
  have 2: "check_metric_rule example_lib god_rule no_metrics_index = Inl StorageError"
    by blast
  from a b c 1 2 show ?thesis by simp
qed

subsection \<open>The \<open>cognitive_complexity\<close> metric\<close>

lemma complexity_loop_named:
  "r_name rule = Some n \<Longrightarrow>
   complexity_loop rule threshold rows vs = (None, vs @ map (complexity_violation n threshold) rows)"
  by (induction rows arbitrary: vs) (simp_all add: append_violation_def complexity_violation_def)

lemma sorted_desc_sort_key:
  "sorted_wrt (\<lambda>a b. f b \<le> (f a :: rat)) (sort_key (\<lambda>r. - f r) xs)"
proof -
  have "sorted (map (\<lambda>r. - f r) (sort_key (\<lambda>r. - f r) xs))" by (rule sorted_sort_key)
  then show ?thesis by (simp add: sorted_map sorted_wrt_iff_nth_less)
qed

lemma sorted_wrt_take_drop:
  assumes "sorted_wrt P xs" and "a \<in> set (take k xs)" and "b \<in> set (drop k xs)"
  shows "P a b"
proof -
  have "sorted_wrt P (take k xs @ drop k xs)" using assms(1) by simp
  then show ?thesis using assms(2,3) unfolding sorted_wrt_append by blast
qed

text \<open>
  C8, as stated, fails: the claim says that the symbols whose complexity exceeds \<open>M\<close> are
  reported. In the handler index \<open>serve\<close> has complexity 30. For the rule with maximum 25
  and no name the query returns the row of \<open>serve\<close>, building its violation raises
  \<open>KeyError\<close> inside the \<open>try\<close>, and the checker returns no violation. For the named rule
  with the maximum -99999999999999999999999, below every stored complexity, binding the
  maximum raises \<open>OverflowError\<close> inside the \<open>try\<close>, and the checker returns no violation.
\<close>

theorem complexity_rule_reports_nothing:
  "r_name nameless_complexity_rule = None \<and>
   r_max nameless_complexity_rule = Some (IntNum 25) \<and>
   complexity_rows handlers_index (IntNum 25) =
     Inr [\<lparr>c_cognitive_complexity = 30, c_name = ''serve'', c_kind = ''function'',
           c_line_start = Some 3, c_path = ''handlers/h.x''\<rparr>] \<and>
   check_metric_rule example_lib nameless_complexity_rule handlers_index = Inr [] \<and>
   r_name low_max_rule = Some ''Max function complexity'' \<and>
   r_max low_max_rule = Some (IntNum (- 99999999999999999999999)) \<and>
   num_value (IntNum (- 99999999999999999999999)) < 4 \<and>
   complexity_rows handlers_index (IntNum (- 99999999999999999999999)) = Inl OverflowError \<and>
   check_metric_rule example_lib low_max_rule handlers_index = Inr []"
  by code_simp

text \<open>
  C8, amended: for a \<open>cognitive_complexity\<close> rule that has a name, over readable tables,
  with \<open>M\<close> the rule's \<open>max\<close> or 999 when there is none, and \<open>M\<close> a float or an int within
  the signed 64-bit range, the checker returns one violation per reported row, carrying the
  row's value and \<open>M\<close>. The reported rows together with the unreported rest are exactly the
  joined metric rows whose complexity exceeds \<open>M\<close>; the reported rows are the first 50 of
  them (all when there are at most 50), in descending order of complexity, and no row of
  the rest has a higher complexity than a reported one.
\<close>

theorem cognitive_complexity_rule:
  assumes "r_metric rule = Some ''cognitive_complexity''" and "r_name rule = Some n"
    and "sqlite_bindable (get_or (r_max rule) (IntNum 999))"
    and "t_symbol_metrics conn = Some sms" and "t_symbols conn = Some ss"
    and "t_files conn = Some fs"
  shows "\<exists>rows rest.
           check_metric_rule lib rule conn =
             Inr (map (complexity_violation n (get_or (r_max rule) (IntNum 999))) rows) \<and>
           mset (rows @ rest) =
             mset (filter (\<lambda>r. num_value (get_or (r_max rule) (IntNum 999)) <
                                c_cognitive_complexity r)
                     (complexity_join sms ss fs)) \<and>
           length rows = min 50 (length (rows @ rest)) \<and>
           sorted_wrt (\<lambda>a b. c_cognitive_complexity b \<le> c_cognitive_complexity a) rows \<and>
           (\<forall>a \<in> set rows. \<forall>b \<in> set rest. c_cognitive_complexity b \<le> c_cognitive_complexity a) \<and>
           (r_max rule = None \<longrightarrow> get_or (r_max rule) (IntNum 999) = IntNum 999) \<and>
           (\<forall>M. r_max rule = Some M \<longrightarrow> get_or (r_max rule) (IntNum 999) = M)"
proof -
  let ?M = "get_or (r_max rule) (IntNum 999)"
  let ?offenders =
    "filter (\<lambda>r. num_value ?M < c_cognitive_complexity r) (complexity_join sms ss fs)"
  define sorted_rows where "sorted_rows = sort_key (\<lambda>r. - c_cognitive_complexity r) ?offenders"
  define rows where "rows = take 50 sorted_rows"
  define rest where "rest = drop 50 sorted_rows"
  have q: "complexity_rows conn ?M = Inr rows"
    using assms(3-6) by (simp add: complexity_rows_def rows_def sorted_rows_def)
  have res: "check_metric_rule lib rule conn = Inr (map (complexity_violation n ?M) rows)"
    using assms(1,2) q by (simp add: check_metric_rule_def Let_def complexity_loop_named get_or_def)
  have ms: "mset (rows @ rest) = mset ?offenders"
    by (simp add: rows_def rest_def sorted_rows_def)
  have len: "length rows = min 50 (length (rows @ rest))"
    by (simp add: rows_def rest_def)
  have sd: "sorted_wrt (\<lambda>a b. c_cognitive_complexity b \<le> c_cognitive_complexity a) sorted_rows"
    unfolding sorted_rows_def by (rule sorted_desc_sort_key)
  then have s1: "sorted_wrt (\<lambda>a b. c_cognitive_complexity b \<le> c_cognitive_complexity a) rows"
    unfolding rows_def by (rule sorted_wrt_take)
  have top: "\<forall>a \<in> set rows. \<forall>b \<in> set rest. c_cognitive_complexity b \<le> c_cognitive_complexity a"
    using sorted_wrt_take_drop [OF sd] unfolding rows_def rest_def by blast
  have d1: "r_max rule = None \<longrightarrow> ?M = IntNum 999"
    by (simp add: get_or_def)
  have d2: "\<forall>M. r_max rule = Some M \<longrightarrow> ?M = M"
    by (simp add: get_or_def)
  have c: "check_metric_rule lib rule conn = Inr (map (complexity_violation n ?M) rows) \<and>
        mset (rows @ rest) = mset ?offenders \<and>
        length rows = min 50 (length (rows @ rest)) \<and>
        sorted_wrt (\<lambda>a b. c_cognitive_complexity b \<le> c_cognitive_complexity a) rows \<and>
        (\<forall>a \<in> set rows. \<forall>b \<in> set rest. c_cognitive_complexity b \<le> c_cognitive_complexity a) \<and>
        (r_max rule = None \<longrightarrow> ?M = IntNum 999) \<and>
        (\<forall>M. r_max rule = Some M \<longrightarrow> ?M = M)"
    using res ms len s1 top d1 d2 by (intro conjI)
  show ?thesis
    apply (rule exI [of _ rows])
    apply (rule exI [of _ rest])
    apply (rule c)
    done
qed

theorem cognitive_complexity_rule_witness:
  "r_metric complexity_rule = Some ''cognitive_complexity'' \<and>
   r_name complexity_rule = Some ''Max function complexity'' \<and>
   sqlite_bindable (get_or (r_max complexity_rule) (IntNum 999)) \<and>
   check_metric_rule example_lib complexity_rule handlers_index =
     Inr [ComplexityViolation ''Max function complexity'' ''serve'' 30 (IntNum 25)
            ''handlers/h.x'' (Some 3)] \<and>
   (\<exists>rows rest.
      check_metric_rule example_lib complexity_rule handlers_index =
        Inr (map (complexity_violation ''Max function complexity'' (IntNum 25)) rows) \<and>
      length rows = min 50 (length (rows @ rest)))"
proof -
  have a: "r_metric complexity_rule = Some ''cognitive_complexity''"
    and b: "r_name complexity_rule = Some ''Max function complexity''"
    and m: "get_or (r_max complexity_rule) (IntNum 999) = IntNum 25"
    by (simp_all add: complexity_rule_def empty_rule_def get_or_def)
  have sb: "sqlite_bindable (get_or (r_max complexity_rule) (IntNum 999))"
    unfolding m by (simp add: sqlite_bindable_def)
  have t: "t_symbol_metrics handlers_index =
             Some [\<lparr>sm_symbol_id = 1, sm_cognitive_complexity = 30\<rparr>,
                   \<lparr>sm_symbol_id = 2, sm_cognitive_complexity = 4\<rparr>]"
    "t_symbols handlers_index = Some
        [\<lparr>s_id = 1, s_file_id = 1, s_name = ''serve'', s_kind = ''function'',
          s_line_start = Some 3, s_is_exported = 1\<rparr>,
         \<lparr>s_id = 2, s_file_id = 2, s_name = ''query'', s_kind = ''function'',
          s_line_start = Some 8, s_is_exported = 1\<rparr>]"
    "t_files handlers_index =
       Some [\<lparr>f_id = 1, f_path = ''handlers/h.x''\<rparr>, \<lparr>f_id = 2, f_path = ''db/d.x''\<rparr>]"
    by (simp_all add: handlers_index_def)
  have v: "check_metric_rule example_lib complexity_rule handlers_index =
     Inr [ComplexityViolation ''Max function complexity'' ''serve'' 30 (IntNum 25)
            ''handlers/h.x'' (Some 3)]"
    by code_simp
  from cognitive_complexity_rule [OF a b sb t, of example_lib]
  obtain rows rest where
    "check_metric_rule example_lib complexity_rule handlers_index =
        Inr (map (complexity_violation ''Max function complexity'' (IntNum 25)) rows)"
    "length rows = min 50 (length (rows @ rest))"
    unfolding m by blast
  then have "\<exists>rows rest.
      check_metric_rule example_lib complexity_rule handlers_index =
        Inr (map (complexity_violation ''Max function complexity'' (IntNum 25)) rows) \<and>
      length rows = min 50 (length (rows @ rest))"
    by blast
  with a b sb v show ?thesis by simp
qed

subsection \<open>The exit code and the envelope of \<open>fitness\<close>\<close>

lemma run_rules_Inr:
  "run_rules lib conn rules av rr = Inr (av', rr') \<Longrightarrow>
   av' = av @ concat (map (rule_violations lib conn) rules) \<and>
   rr' = rr @ map (\<lambda>r. result_entry r (get_or (r_type r) []) (rule_violations lib conn r))
               (filter (\<lambda>r. CHECKERS (get_or (r_type r) []) \<noteq> None) rules) \<and>
   (\<forall>r \<in> set rules. \<forall>e. \<not> rule_raises lib conn r e)"
proof (induction rules arbitrary: av rr)
  case Nil
  then show ?case by simp
next
  case (Cons rule rules)
  show ?case
  proof (cases "CHECKERS (get_or (r_type rule) [])")
    case None
    with Cons.prems have "run_rules lib conn rules av rr = Inr (av', rr')" by simp
    from Cons.IH [OF this] None show ?thesis
      by (simp add: rule_violations_def rule_raises_def)
  next
    case (Some checker)
    show ?thesis
    proof (cases "checker lib rule conn")
      case (Inl e)
      with Some Cons.prems show ?thesis by simp
    next
      case (Inr vs)
      with Some Cons.prems have
        "run_rules lib conn rules (av @ vs)
           (rr @ [result_entry rule (get_or (r_type rule) []) vs]) = Inr (av', rr')"
        by simp
      from Cons.IH [OF this] Some Inr show ?thesis
        by (simp add: rule_violations_def rule_raises_def)
    qed
  qed
qed


lemma result_entry_status:
  "rr_status (result_entry r t vs) = FAIL \<longleftrightarrow> vs \<noteq> []"
  by (simp add: result_entry_def Let_def)

lemma failed_count_pos:
  "0 < length (filter (\<lambda>r. rr_status r = FAIL)
         (map (\<lambda>r. result_entry r (get_or (r_type r) []) (f r)) rs)) \<longleftrightarrow>
   (\<exists>r \<in> set rs. f r \<noteq> [])"
proof -
  have "0 < length (filter (\<lambda>r. rr_status r = FAIL)
         (map (\<lambda>r. result_entry r (get_or (r_type r) []) (f r)) rs)) \<longleftrightarrow>
        (\<exists>x \<in> set (map (\<lambda>r. result_entry r (get_or (r_type r) []) (f r)) rs). rr_status x = FAIL)"
    unfolding length_greater_0_conv by (simp only: filter_empty_conv) blast
  also have "\<dots> \<longleftrightarrow> (\<exists>r \<in> set rs. f r \<noteq> [])"
    by (simp add: result_entry_status)
  finally show ?thesis .
qed


lemma fitness_selected:
  "fitness lib json_mode do_init rule_filter explain rules conn =
     (if do_init then Inr \<lparr>echoed = InitConfig, exit_code = 0\<rparr>
      else if rules = [] then Inr \<lparr>echoed = Message no_rules_message, exit_code = 0\<rparr>
      else if get_or rule_filter [] \<noteq> [] \<and> selected_rules rule_filter rules = [] then
        Inr \<lparr>echoed = Message (''No rules matching '' @ quoted (get_or rule_filter []) @ ''.''),
             exit_code = 0\<rparr>
      else
        (case run_rules lib conn (selected_rules rule_filter rules) [] [] of
           Inl e \<Rightarrow> Inl e
         | Inr (all_violations, rule_results) \<Rightarrow>
             Inr \<lparr>echoed =
                    (if json_mode then
                       JsonEnvelope
                         \<lparr>rules_checked = length rule_results,
                          passed = length (filter (\<lambda>r. rr_status r = PASS) rule_results),
                          failed = length (filter (\<lambda>r. rr_status r = FAIL) rule_results),
                          total_violations = length all_violations\<rparr>
                         rule_results (take 100 all_violations)
                     else
                       TextReport rule_results explain (take 30 all_violations)
                         (if 30 < length all_violations
                          then Some (length all_violations - 30) else None)
                         (length (filter (\<lambda>r. rr_status r = PASS) rule_results))
                         (length (filter (\<lambda>r. rr_status r = FAIL) rule_results))),
                  exit_code =
                    (if 0 < length (filter (\<lambda>r. rr_status r = FAIL) rule_results)
                     then 1 else 0)\<rparr>))"
  by (simp add: fitness_def Let_def split: sum.splits prod.splits)






lemma concat_nonempty: "concat xss \<noteq> [] \<longleftrightarrow> (\<exists>xs \<in> set xss. xs \<noteq> [])"
  by (induction xss) auto

text \<open>
  C10: in JSON mode, when rules are checked and the command ends, the envelope's violations
  are the first 100 of all the violations the selected rules found, the summary's
  \<open>total_violations\<close> is the number of all of them, with more than 100 found the array is
  shorter than that total, and the exit code is 1 exactly when the total is positive.
\<close>

theorem fitness_json_truncation:
  assumes "fitness lib True do_init rule_filter explain rules conn = Inr res"
    and "\<not> do_init" and "selected_rules rule_filter rules \<noteq> []"
  shows "\<exists>sm rrs vs.
           echoed res = JsonEnvelope sm rrs vs \<and>
           vs = take 100 (concat (map (rule_violations lib conn) (selected_rules rule_filter rules))) \<and>
           length vs \<le> 100 \<and>
           total_violations sm =
             length (concat (map (rule_violations lib conn) (selected_rules rule_filter rules))) \<and>
           (100 < total_violations sm \<longrightarrow> length vs < total_violations sm) \<and>
           (exit_code res = 1 \<longleftrightarrow> 0 < total_violations sm) \<and>
           (exit_code res = 0 \<longleftrightarrow> total_violations sm = 0)"
proof -
  let ?sel = "selected_rules rule_filter rules"
  let ?found = "concat (map (rule_violations lib conn) ?sel)"
  from assms(3) have ne: "rules \<noteq> []"
    by (auto simp: selected_rules_def split: if_splits)
  from assms ne obtain av rr where
    rr: "run_rules lib conn ?sel [] [] = Inr (av, rr)"
    and ec: "echoed res = JsonEnvelope
               \<lparr>rules_checked = length rr,
                passed = length (filter (\<lambda>r. rr_status r = PASS) rr),
                failed = length (filter (\<lambda>r. rr_status r = FAIL) rr),
                total_violations = length av\<rparr> rr (take 100 av)"
    and ex: "exit_code res = (if 0 < length (filter (\<lambda>r. rr_status r = FAIL) rr) then 1 else 0)"
    by (auto simp: fitness_selected split: if_splits sum.splits prod.splits)
  from run_rules_Inr [OF rr] have av: "av = ?found"
    and rrs: "rr = map (\<lambda>r. result_entry r (get_or (r_type r) []) (rule_violations lib conn r))
                  (filter (\<lambda>r. CHECKERS (get_or (r_type r) []) \<noteq> None) ?sel)"
    by simp_all
  have "0 < length (filter (\<lambda>r. rr_status r = FAIL) rr) \<longleftrightarrow>
        (\<exists>r \<in> set (filter (\<lambda>r. CHECKERS (get_or (r_type r) []) \<noteq> None) ?sel).
            rule_violations lib conn r \<noteq> [])"
    unfolding rrs by (rule failed_count_pos)
  also have "\<dots> \<longleftrightarrow> (\<exists>r \<in> set ?sel. rule_violations lib conn r \<noteq> [])"
    by (auto simp: rule_violations_def split: option.splits)
  also have "\<dots> \<longleftrightarrow> ?found \<noteq> []"
    by (simp add: concat_nonempty)
  finally have fl: "0 < length (filter (\<lambda>r. rr_status r = FAIL) rr) \<longleftrightarrow> 0 < length av"
    by (simp add: av)
  have c: "echoed res = JsonEnvelope
               \<lparr>rules_checked = length rr,
                passed = length (filter (\<lambda>r. rr_status r = PASS) rr),
                failed = length (filter (\<lambda>r. rr_status r = FAIL) rr),
                total_violations = length av\<rparr> rr (take 100 av) \<and>
           take 100 av = take 100 ?found \<and>
           length (take 100 av) \<le> 100 \<and>
           total_violations \<lparr>rules_checked = length rr,
                passed = length (filter (\<lambda>r. rr_status r = PASS) rr),
                failed = length (filter (\<lambda>r. rr_status r = FAIL) rr),
                total_violations = length av\<rparr> = length ?found \<and>
           (100 < total_violations \<lparr>rules_checked = length rr,
                passed = length (filter (\<lambda>r. rr_status r = PASS) rr),
                failed = length (filter (\<lambda>r. rr_status r = FAIL) rr),
                total_violations = length av\<rparr> \<longrightarrow> length (take 100 av) < total_violations \<lparr>rules_checked = length rr,
                passed = length (filter (\<lambda>r. rr_status r = PASS) rr),
                failed = length (filter (\<lambda>r. rr_status r = FAIL) rr),
                total_violations = length av\<rparr>) \<and>
           (exit_code res = 1 \<longleftrightarrow> 0 < total_violations \<lparr>rules_checked = length rr,
                passed = length (filter (\<lambda>r. rr_status r = PASS) rr),
                failed = length (filter (\<lambda>r. rr_status r = FAIL) rr),
                total_violations = length av\<rparr>) \<and>
           (exit_code res = 0 \<longleftrightarrow> total_violations \<lparr>rules_checked = length rr,
                passed = length (filter (\<lambda>r. rr_status r = PASS) rr),
                failed = length (filter (\<lambda>r. rr_status r = FAIL) rr),
                total_violations = length av\<rparr> = 0)"
    using ec ex fl av by simp
  show ?thesis
    apply (rule exI [of _ "\<lparr>rules_checked = length rr,
                passed = length (filter (\<lambda>r. rr_status r = PASS) rr),
                failed = length (filter (\<lambda>r. rr_status r = FAIL) rr),
                total_violations = length av\<rparr>"])
    apply (rule exI [of _ rr])
    apply (rule exI [of _ "take 100 av"])
    apply (rule c)
    done
qed

theorem fitness_json_truncation_witness:
  "\<exists>res sm rrs vs.
     fitness example_lib True False None False [forbid_db_rule] busy_index = Inr res \<and>
     echoed res = JsonEnvelope sm rrs vs \<and> length vs = 100 \<and> total_violations sm = 101 \<and>
     exit_code res = 1"
proof -
  have run: "case fitness example_lib True False None False [forbid_db_rule] busy_index of
               Inr res \<Rightarrow> True | Inl e \<Rightarrow> False"
    by code_simp
  then obtain res where
    res: "fitness example_lib True False None False [forbid_db_rule] busy_index = Inr res"
    by (auto split: sum.splits)
  have sel: "selected_rules None [forbid_db_rule] \<noteq> []"
    by (simp add: selected_rules_def get_or_def)
  have n: "length (concat (map (rule_violations example_lib busy_index)
                     (selected_rules None [forbid_db_rule]))) = 101"
    by code_simp
  have nd: "\<not> False" by simp
  from fitness_json_truncation [OF res nd sel] obtain sm rrs vs where
    e: "echoed res = JsonEnvelope sm rrs vs"
    and v: "vs = take 100 (concat (map (rule_violations example_lib busy_index)
                     (selected_rules None [forbid_db_rule])))"
    and t: "total_violations sm = length (concat (map (rule_violations example_lib busy_index)
                     (selected_rules None [forbid_db_rule])))"
    and x: "exit_code res = 1 \<longleftrightarrow> 0 < total_violations sm"
    by auto
  from v n have "length vs = 100" by simp
  moreover from t n have "total_violations sm = 101" by simp
  moreover from this x have "exit_code res = 1" by simp
  ultimately show ?thesis using res e by blast
qed

subsection \<open>The fallback rule loader\<close>

lemma parse_line_ignored:
  "ignored_line l \<Longrightarrow> parse_line pf l st = st"
  by (simp add: parse_line_def ignored_line_def Let_def)

lemma parse_loop_filter:
  "parse_loop pf ls st = parse_loop pf (filter (\<lambda>l. \<not> ignored_line l) ls) st"
  by (induction ls arbitrary: st) (simp_all add: parse_line_ignored)

lemma parse_line_no_rule:
  "\<not> name_line l \<Longrightarrow> parse_line pf l (rules, None) = (rules, None)"
  by (simp add: parse_line_def name_line_def Let_def)

lemma parse_loop_dropWhile:
  "parse_loop pf ls (rules, None) = parse_loop pf (dropWhile (\<lambda>l. \<not> name_line l) ls) (rules, None)"
  by (induction ls) (simp_all add: parse_line_no_rule)

lemma split_colon_name:
  assumes "starts_with s ''- name:''"
  shows "snd (split_colon s) = drop 7 s"
proof -
  have l: "length ''- name:'' = 7" by simp
  from assms have "take 7 s = ''- name:''" unfolding starts_with_def l .
  then have "s = ''- name:'' @ drop 7 s" by (metis append_take_drop_id)
  then obtain r where s: "s = ''- name:'' @ r" and r: "r = drop 7 s" by blast
  show ?thesis unfolding r [symmetric] by (subst s) (simp add: split_colon_def)
qed

lemma name_not_ignored: "name_line l \<Longrightarrow> \<not> ignored_line l"
  by (cases "strip l") (auto simp: name_line_def ignored_line_def starts_with_def)

lemma parse_line_name:
  "name_line l \<Longrightarrow>
   parse_line pf l (rules, cur) = (append_current rules cur, Some (new_rule l))"
  using name_not_ignored [of l]
  by (simp add: parse_line_def name_line_def ignored_line_def new_rule_def Let_def split_colon_name)

lemma parse_line_pair:
  "\<not> name_line l \<Longrightarrow> \<not> ignored_line l \<Longrightarrow> cr \<noteq> [] \<Longrightarrow>
   parse_line pf l (rules, Some cr) = (rules, Some (attach_pair pf l cr))"
  by (simp add: parse_line_def name_line_def ignored_line_def attach_pair_def Let_def)

lemma dict_set_nonempty: "dict_set k v d \<noteq> []"
  by (cases d) (auto split: if_splits)

lemma attach_pair_nonempty: "cr \<noteq> [] \<Longrightarrow> attach_pair pf l cr \<noteq> []"
  by (simp add: attach_pair_def dict_set_nonempty)

lemma new_rule_nonempty: "new_rule l \<noteq> []"
  by (simp add: new_rule_def)

lemma parse_loop_rules:
  assumes "\<forall>l \<in> set ls. \<not> ignored_line l" and "cr \<noteq> []"
  shows "(case parse_loop pf ls (rules, Some cr) of (rs, cur) \<Rightarrow> append_current rs cur) =
         rules @ fold (attach_pair pf) (takeWhile (\<lambda>l. \<not> name_line l) ls) cr #
                 spec_rules pf (dropWhile (\<lambda>l. \<not> name_line l) ls)"
  using assms
proof (induction ls arbitrary: rules cr)
  case Nil
  then show ?case by (simp add: append_current_def)
next
  case (Cons l ls)
  show ?case
  proof (cases "name_line l")
    case True
    have "(case parse_loop pf (l # ls) (rules, Some cr) of (rs, cur) \<Rightarrow> append_current rs cur) =
          (case parse_loop pf ls (rules @ [cr], Some (new_rule l)) of (rs, cur) \<Rightarrow> append_current rs cur)"
      using True Cons.prems(2) by (simp add: parse_line_name append_current_def)
    also have "\<dots> = (rules @ [cr]) @ fold (attach_pair pf) (takeWhile (\<lambda>l. \<not> name_line l) ls) (new_rule l) #
                 spec_rules pf (dropWhile (\<lambda>l. \<not> name_line l) ls)"
      using Cons.prems(1) by (intro Cons.IH) (simp_all add: new_rule_nonempty)
    finally show ?thesis using True by simp
  next
    case False
    from Cons.prems(1) have ni: "\<not> ignored_line l" by simp
    have "(case parse_loop pf (l # ls) (rules, Some cr) of (rs, cur) \<Rightarrow> append_current rs cur) =
          (case parse_loop pf ls (rules, Some (attach_pair pf l cr)) of (rs, cur) \<Rightarrow> append_current rs cur)"
      using False ni Cons.prems(2) by (simp add: parse_line_pair)
    also have "\<dots> = rules @ fold (attach_pair pf) (takeWhile (\<lambda>l. \<not> name_line l) ls) (attach_pair pf l cr) #
                 spec_rules pf (dropWhile (\<lambda>l. \<not> name_line l) ls)"
      using Cons.prems by (intro Cons.IH) (simp_all add: attach_pair_nonempty)
    finally show ?thesis using False by simp
  qed
qed

lemma parse_lines_spec:
  "(case parse_loop pf ls ([], None) of (rs, cur) \<Rightarrow> append_current rs cur) =
   spec_rules pf (dropWhile (\<lambda>l. \<not> name_line l) (filter (\<lambda>l. \<not> ignored_line l) ls))"
proof -
  let ?rel = "filter (\<lambda>l. \<not> ignored_line l) ls"
  let ?body = "dropWhile (\<lambda>l. \<not> name_line l) ?rel"
  have eq: "parse_loop pf ls ([], None) = parse_loop pf ?body ([], None)"
    by (subst parse_loop_filter, subst parse_loop_dropWhile) simp
  show ?thesis
  proof (cases ?body)
    case Nil
    show ?thesis unfolding eq Nil by (simp add: append_current_def)
  next
    case (Cons l rest)
    then have nl: "name_line l" by (metis (mono_tags, lifting) hd_dropWhile list.sel(1) list.distinct(1))
    have "set ?body \<subseteq> set ?rel" by (rule set_dropWhileD [THEN subsetI]) 
    with Cons have ni: "\<forall>x \<in> set rest. \<not> ignored_line x" by auto
    have "(case parse_loop pf ls ([], None) of (rs, cur) \<Rightarrow> append_current rs cur) =
          (case parse_loop pf rest ([], Some (new_rule l)) of (rs, cur) \<Rightarrow> append_current rs cur)"
      unfolding eq Cons using nl by (simp add: parse_line_name append_current_def)
    also have "\<dots> = [] @ fold (attach_pair pf) (takeWhile (\<lambda>l. \<not> name_line l) rest) (new_rule l) #
                 spec_rules pf (dropWhile (\<lambda>l. \<not> name_line l) rest)"
      using ni by (intro parse_loop_rules) (simp_all add: new_rule_nonempty)
    finally show ?thesis unfolding Cons by simp
  qed
qed

text \<open>
  C9: for every text the loader returns the rules of the flat dialect. Blank lines and lines
  that start with \<open>#\<close> are dropped; the lines before the first \<open>- name:\<close> line add
  nothing; each \<open>- name:\<close> line starts a rule named by the rest of the line without its
  quotes; each later line with a colon sets its key in that rule to the converted value
  (\<open>true\<close> and \<open>false\<close> in any case to booleans, int and float literals to numbers);
  and the last rule is part of the result.
\<close>

theorem parse_simple_yaml_spec:
  "parse_simple_yaml pf text = spec_parse pf text"
  unfolding parse_simple_yaml_def spec_parse_def by (rule parse_lines_spec)

theorem parse_simple_yaml_spec_witness:
  "parse_simple_yaml decimal_float example_yaml =
     [[(''name'', YStr ''No cycles''), (''type'', YStr ''metric''), (''metric'', YStr ''cycles''),
       (''max'', YInt 0)],
      [(''name'', YStr ''Handlers''), (''allow'', YBool False), (''min'', YFloat (1 / 2))]]"
proof -
  have "spec_parse decimal_float example_yaml =
     [[(''name'', YStr ''No cycles''), (''type'', YStr ''metric''), (''metric'', YStr ''cycles''),
       (''max'', YInt 0)],
      [(''name'', YStr ''Handlers''), (''allow'', YBool False), (''min'', YFloat (1 / 2))]]"
    by code_simp
  with parse_simple_yaml_spec [of decimal_float example_yaml] show ?thesis by simp
qed

text \<open>The conversions on sample values.\<close>

lemma convert_samples:
  "convert decimal_float ''TRUE'' = YBool True"
  "convert decimal_float ''false'' = YBool False"
  "convert decimal_float ''-1_000'' = YInt (- 1000)"
  "convert decimal_float ''2.5'' = YFloat (5 / 2)"
  "convert decimal_float ''src/**'' = YStr ''src/**''"
  "convert decimal_float [CHR 0x1C, CHR ''1'', CHR ''2''] = YStr [CHR 0x1C, CHR ''1'', CHR ''2'']"
  by code_simp+

end
